theory Spec2Isabelle
  imports Main "HOL-Library.Word"
begin

unbundle bit_operations_syntax

section \<open>Data model\<close>

text \<open>
  The gate client of the \<open>spin\<close> command line tool, in its two versions: the older
  \<open>ApiMeta\<close> client (\<open>NewGateClient(flags)\<close>, used by the \<open>application\<close> commands) and
  the newer \<open>GatewayClient\<close>. Go strings are byte sequences, so both \<open>string\<close> and
  \<open>[]byte\<close> are \<^typ>\<open>string\<close> here.
\<close>

type_synonym bytes = string

text \<open>
  A Go \<open>error\<close> value with its message. \<open>NotExist\<close> stands for the errors on which
  \<open>os.IsNotExist\<close> answers true.
\<close>

datatype error = Error (error_Error: string) | NotExist (error_Error: string)

definition errors_New :: "string \<Rightarrow> error" where
  "errors_New msg = Error msg"

fun os_IsNotExist :: "error \<Rightarrow> bool" where
  "os_IsNotExist (NotExist _) = True"
| "os_IsNotExist (Error _) = False"

text \<open>
  A call either returns or panics (a nil dereference ends the process). A Go function
  of result type \<open>error\<close> returns \<open>error option\<close>, \<open>None\<close> being \<open>nil\<close>.
\<close>

datatype 'a outcome = Return 'a | Panic

subsection \<open>Configuration (package \<open>config\<close>)\<close>

text \<open>\<open>oauth2.Token\<close>: access token, refresh token and expiry (seconds).\<close>

record token =
  AccessToken :: string
  RefreshToken :: string
  Expiry :: int

record x509_config =
  CertPath :: string
  KeyPath :: string
  Cert :: string
  Key :: string

record oauth2_config =
  ClientId :: string
  ClientSecret :: string
  AuthUrl :: string
  TokenUrl :: string
  Scopes :: "string list"
  CachedToken :: "token option"

record basic_config =
  basic_Username :: string
  basic_Password :: string

record ldap_config =
  ldap_Username :: string
  ldap_Password :: string

text \<open>The IAP section is handed to \<open>iap.GetIapToken\<close> as it is; its fields are not read here.\<close>

datatype iap_config = IapConfig "(string \<times> string) list"

record gsa_config =
  gsa_Enabled :: bool
  File :: string
  gsa_CachedToken :: "token option"

text \<open>Every section is a pointer in Go: \<open>None\<close> is \<open>nil\<close>, the section is absent.\<close>

record auth_config =
  Enabled :: bool
  X509 :: "x509_config option"
  OAuth2 :: "oauth2_config option"
  Basic :: "basic_config option"
  Iap :: "iap_config option"
  Ldap :: "ldap_config option"
  GoogleServiceAccount :: "gsa_config option"

record config =
  Gate_Endpoint :: string
  Auth :: "auth_config option"

subsection \<open>Libraries: \<open>oauth2\<close>, \<open>net/http\<close>, \<open>crypto/tls\<close>, \<open>context\<close>\<close>

record oauth2_Config =
  ClientID :: string
  oa_ClientSecret :: string
  RedirectURL :: string
  oa_Scopes :: "string list"
  Endpoint_AuthURL :: string
  Endpoint_TokenURL :: string

text \<open>
  \<open>oauth2.AuthCodeOption\<close>: a parameter set with \<open>oauth2.SetAuthURLParam\<close>, or one of the
  library's two constants.
\<close>

datatype AuthCodeOption = SetAuthURLParam string string | AccessTypeOffline | ApprovalForce

text \<open>A token source of the Google library, opaque to the client.\<close>

datatype TokenSource = TokenSource string

text \<open>
  The request context \<open>m.Context\<close>: \<open>context.Background()\<close>, or the background context
  with a value under \<open>gate.ContextAccessToken\<close> or \<open>gate.ContextBasicAuth\<close>.
\<close>

datatype go_context = Background | WithAccessToken string | WithBasicAuth string string

datatype certificate = Certificate bytes bytes

record tls_Config =
  MinVersion :: nat
  PreferServerCipherSuites :: bool
  Certificates :: "certificate list"
  InsecureSkipVerify :: bool

definition tls_Config_zero :: tls_Config where
  "tls_Config_zero =
     \<lparr>MinVersion = 0, PreferServerCipherSuites = False, Certificates = [],
      InsecureSkipVerify = False\<rparr>"

definition VersionTLS12 :: nat where
  "VersionTLS12 = 771"

record http_Transport =
  TLSClientConfig :: "tls_Config option"

text \<open>
  \<open>http.Client\<close>: \<open>Jar\<close> says that a cookie jar is attached (its cookies live in the
  library), \<open>Transport = None\<close> is the nil transport.
\<close>

record http_Client =
  Jar :: bool
  Transport :: "http_Transport option"

record http_Request =
  Method :: string
  URL :: string
  Header :: "(string \<times> string) list"
  Body :: "string option"

text \<open>\<open>os.FileMode\<close> is a \<open>uint32\<close>.\<close>

type_synonym FileMode = "32 word"

record fs_file =
  file_Mode :: FileMode
  content :: bytes

subsection \<open>Effects\<close>

text \<open>Everything the client does to the outside, in the order it does it.\<close>

datatype event =
    UiError string | UiOutput string | UiInfo string | UiWarn string
  | StdinReadString
  | TerminalReadPassword
  | HttpHandle string
  | GoListenAndServe string
  | RandRead nat
  | TokenSourceToken oauth2_Config token
  | Exchange oauth2_Config string "AuthCodeOption list"
  | GetIapToken iap_config
  | GoogleDefaultTokenSource "string list"
  | GoogleJWTAccessTokenSourceFromJSON bytes string
  | SourceToken TokenSource
  | ReadFile string
  | Stat string
  | WriteFile string bytes FileMode
  | HttpDo http_Request

text \<open>The events that may reach the network.\<close>

fun is_network :: "event \<Rightarrow> bool" where
  "is_network (GoListenAndServe _) = True"
| "is_network (TokenSourceToken _ _) = True"
| "is_network (Exchange _ _ _) = True"
| "is_network (GetIapToken _) = True"
| "is_network (GoogleDefaultTokenSource _) = True"
| "is_network (SourceToken _) = True"
| "is_network (HttpDo _) = True"
| "is_network _ = False"

text \<open>
  The outside world and the library functions the client calls, as parameters: what
  they answer is not decided by this code. \<open>oauth2_IsValid\<close> is \<open>OAuth2.IsValid\<close> of package
  \<open>config\<close>, of which the spec does not say which fields it asks for; \<open>token_Valid\<close> is
  \<open>Token.Valid\<close> of the \<open>oauth2\<close> library, which reads the clock. \<open>stat_fault\<close>,
  \<open>read_fault\<close> and \<open>write_fault\<close> are the failures of the file system other than a
  missing file.
\<close>

record env =
  rand_source :: "nat \<Rightarrow> error + bytes"
  base64_RawURLEncoding :: "bytes \<Rightarrow> string"
  sha256_Sum256 :: "bytes \<Rightarrow> bytes"
  strings_TrimSpace :: "string \<Rightarrow> string"
  oauth2_IsValid :: "oauth2_config \<Rightarrow> bool"
  token_Valid :: "token \<Rightarrow> bool"
  fmt_TokenSource :: "oauth2_Config \<Rightarrow> token \<Rightarrow> string"
  AuthCodeURL :: "oauth2_Config \<Rightarrow> string \<Rightarrow> AuthCodeOption list \<Rightarrow> string"
  TokenSource_Token :: "oauth2_Config \<Rightarrow> token \<Rightarrow> error + token"
  oauth2_Exchange :: "oauth2_Config \<Rightarrow> string \<Rightarrow> AuthCodeOption list \<Rightarrow> error + token"
  iap_GetIapToken :: "iap_config \<Rightarrow> string \<times> error option"
  google_DefaultTokenSource :: "string list \<Rightarrow> error + TokenSource"
  google_JWTAccessTokenSourceFromJSON :: "bytes \<Rightarrow> string \<Rightarrow> error + TokenSource"
  source_Token :: "TokenSource \<Rightarrow> error + token"
  url_Parse_error :: "string \<Rightarrow> error option"
  url_Values_Encode :: "(string \<times> string list) list \<Rightarrow> string"
  http_Do :: "http_Client \<Rightarrow> http_Request \<Rightarrow> error + nat"
  homedir_Expand :: "string \<Rightarrow> error + string"
  tls_X509KeyPair :: "bytes \<Rightarrow> bytes \<Rightarrow> error + certificate"
  yaml_Marshal :: "config \<Rightarrow> error + bytes"
  stat_fault :: "string \<Rightarrow> string option"
  read_fault :: "string \<Rightarrow> string option"
  write_fault :: "string \<Rightarrow> string option"
  umask :: FileMode

text \<open>
  The client (the fields of \<open>GatewayClient\<close>; \<open>ApiMeta\<close> has the first five) and the state
  of the process around it: the TLS configuration of \<open>http.DefaultTransport\<close>, the file
  system, the lines waiting on the terminal (each as a read returns it), and the events
  so far.
\<close>

record st =
  Config :: config
  Context :: "go_context option"
  gateEndpoint :: string
  ignoreCertErrors :: bool
  configLocation :: string
  httpClient :: "http_Client option"
  DefaultTransport_TLS :: "tls_Config option"
  fs :: "string \<rightharpoonup> fs_file"
  stdin :: "string list"
  trace :: "event list"

definition emit :: "event \<Rightarrow> st \<Rightarrow> st" where
  "emit e m = m\<lparr>trace := trace m @ [e]\<rparr>"

text \<open>Assignments through the section pointers \<open>auth.OAuth2\<close>, \<open>auth.Ldap\<close>, \<open>gsa\<close>.\<close>

definition upd_auth :: "(auth_config \<Rightarrow> auth_config) \<Rightarrow> st \<Rightarrow> st" where
  "upd_auth f m = m\<lparr>Config := (Config m)\<lparr>Auth := map_option f (Auth (Config m))\<rparr>\<rparr>"

definition set_OAuth2_CachedToken :: "token option \<Rightarrow> st \<Rightarrow> st" where
  "set_OAuth2_CachedToken t =
     upd_auth (\<lambda>a. a\<lparr>OAuth2 := map_option (\<lambda>c. c\<lparr>CachedToken := t\<rparr>) (OAuth2 a)\<rparr>)"

definition set_gsa_CachedToken :: "token option \<Rightarrow> st \<Rightarrow> st" where
  "set_gsa_CachedToken t =
     upd_auth (\<lambda>a. a\<lparr>GoogleServiceAccount :=
        map_option (\<lambda>c. c\<lparr>gsa_CachedToken := t\<rparr>) (GoogleServiceAccount a)\<rparr>)"

definition set_Ldap_Username :: "string \<Rightarrow> st \<Rightarrow> st" where
  "set_Ldap_Username u =
     upd_auth (\<lambda>a. a\<lparr>Ldap := map_option (\<lambda>c. c\<lparr>ldap_Username := u\<rparr>) (Ldap a)\<rparr>)"

definition set_Ldap_Password :: "string \<Rightarrow> st \<Rightarrow> st" where
  "set_Ldap_Password p =
     upd_auth (\<lambda>a. a\<lparr>Ldap := map_option (\<lambda>c. c\<lparr>ldap_Password := p\<rparr>) (Ldap a)\<rparr>)"

section \<open>Library calls with an effect\<close>

text \<open>
  \<open>rand.Read(b)\<close> fills the whole buffer or fails; the buffer keeps its length.
\<close>

definition rand_Read :: "env \<Rightarrow> bytes \<Rightarrow> error + bytes" where
  "rand_Read env b =
     (case rand_source env (length b) of
        Inl err \<Rightarrow> Inl err
      | Inr bs \<Rightarrow> Inr (take (length b) bs @ drop (length bs) b))"

text \<open>\<open>make([]byte, n)\<close>.\<close>

definition make_bytes :: "nat \<Rightarrow> bytes" where
  "make_bytes n = replicate n (CHR 0x00)"

text \<open>
  \<open>http.NewRequest\<close> fails when the URL does not parse (the methods used here are valid).
\<close>

definition http_NewRequest :: "env \<Rightarrow> string \<Rightarrow> string \<Rightarrow> string option \<Rightarrow> error + http_Request" where
  "http_NewRequest env method' url body =
     (case url_Parse_error env url of
        Some err \<Rightarrow> Inl err
      | None \<Rightarrow> Inr \<lparr>Method = method', URL = url, Header = [], Body = body\<rparr>)"

definition Header_Set :: "http_Request \<Rightarrow> string \<Rightarrow> string \<Rightarrow> http_Request" where
  "Header_Set req k v = req\<lparr>Header := filter (\<lambda>kv. fst kv \<noteq> k) (Header req) @ [(k, v)]\<rparr>"

text \<open>\<open>url.Values\<close> and its \<open>Add\<close>: a value is appended under its key.\<close>

fun Values_Add :: "(string \<times> string list) list \<Rightarrow> string \<Rightarrow> string \<Rightarrow> (string \<times> string list) list" where
  "Values_Add [] k v = [(k, [v])]"
| "Values_Add ((k', vs) # rest) k v =
     (if k' = k then (k', vs @ [v]) # rest else (k', vs) # Values_Add rest k v)"

text \<open>
  \<open>os.Stat\<close>: the information of an existing file, a not-exist error for a missing one,
  or another failure (no permission on the directory, say).
\<close>

definition os_Stat :: "env \<Rightarrow> st \<Rightarrow> string \<Rightarrow> error + fs_file" where
  "os_Stat env m name =
     (case stat_fault env name of
        Some msg \<Rightarrow> Inl (Error msg)
      | None \<Rightarrow> (case fs m name of None \<Rightarrow> Inl (NotExist name) | Some f \<Rightarrow> Inr f))"

definition ioutil_ReadFile :: "env \<Rightarrow> st \<Rightarrow> string \<Rightarrow> (error + bytes) \<times> st" where
  "ioutil_ReadFile env m name =
     (let m1 = emit (ReadFile name) m in
      case read_fault env name of
        Some msg \<Rightarrow> (Inl (Error msg), m1)
      | None \<Rightarrow> (case fs m name of
                   None \<Rightarrow> (Inl (NotExist name), m1)
                 | Some f \<Rightarrow> (Inr (content f), m1)))"

text \<open>
  \<open>ioutil.WriteFile\<close> opens with create and truncate: an existing file keeps its mode
  and gets the new content, a missing one is created with \<open>perm\<close> less the umask.
\<close>

definition ioutil_WriteFile :: "env \<Rightarrow> string \<Rightarrow> bytes \<Rightarrow> FileMode \<Rightarrow> st \<Rightarrow> error option \<times> st" where
  "ioutil_WriteFile env name data perm m =
     (let m1 = emit (WriteFile name data perm) m in
      case write_fault env name of
        Some msg \<Rightarrow> (Some (Error msg), m1)
      | None \<Rightarrow>
          (case fs m1 name of
             Some f \<Rightarrow> (None, m1\<lparr>fs := (fs m1)(name \<mapsto> f\<lparr>content := data\<rparr>)\<rparr>)
           | None \<Rightarrow>
               (None, m1\<lparr>fs := (fs m1)(name \<mapsto>
                  \<lparr>file_Mode = perm AND NOT (umask env), content = data\<rparr>)\<rparr>)))"

text \<open>\<open>tls.LoadX509KeyPair\<close> reads the two files and parses them with \<open>tls.X509KeyPair\<close>.\<close>

definition tls_LoadX509KeyPair :: "env \<Rightarrow> string \<Rightarrow> string \<Rightarrow> st \<Rightarrow> (error + certificate) \<times> st" where
  "tls_LoadX509KeyPair env certFile keyFile m =
     (case ioutil_ReadFile env m certFile of
        (Inl err, m1) \<Rightarrow> (Inl err, m1)
      | (Inr certPEM, m1) \<Rightarrow>
          (case ioutil_ReadFile env m1 keyFile of
             (Inl err, m2) \<Rightarrow> (Inl err, m2)
           | (Inr keyPEM, m2) \<Rightarrow> (tls_X509KeyPair env certPEM keyPEM, m2)))"

section \<open>Validity of the sections (package \<open>config\<close>)\<close>

text \<open>
  Modelled from the spec: \<open>X509.IsValid\<close> of package \<open>config\<close>, which is not among the
  sources. The spec (4.3): ``exactly one credential source is populated (path pair XOR
  inline pair)''.
\<close>

definition path_pair :: "x509_config \<Rightarrow> bool" where
  "path_pair x \<longleftrightarrow> CertPath x \<noteq> [] \<and> KeyPath x \<noteq> []"

definition inline_pair :: "x509_config \<Rightarrow> bool" where
  "inline_pair x \<longleftrightarrow> Cert x \<noteq> [] \<and> Key x \<noteq> []"

definition X509_IsValid :: "x509_config \<Rightarrow> bool" where
  "X509_IsValid x \<longleftrightarrow> path_pair x \<noteq> inline_pair x"

text \<open>
  Modelled from the spec: \<open>Basic.IsValid\<close> and \<open>Ldap.IsValid\<close> of package \<open>config\<close>. The
  spec (4.4): ``fails with ConfigurationError if either remains empty''; the error of the
  Basic branch: ``must include username and password''.
\<close>

definition Basic_IsValid :: "basic_config \<Rightarrow> bool" where
  "Basic_IsValid b \<longleftrightarrow> basic_Username b \<noteq> [] \<and> basic_Password b \<noteq> []"

definition Ldap_IsValid :: "ldap_config \<Rightarrow> bool" where
  "Ldap_IsValid l \<longleftrightarrow> ldap_Username l \<noteq> [] \<and> ldap_Password l \<noteq> []"

text \<open>
  Modelled from the spec: \<open>IsEnabled\<close> of the Google service account section, a method
  on the section pointer. The spec (4.1): a handler runs when its ``section is marked
  enabled''.
\<close>

definition gsa_IsEnabled :: "gsa_config option \<Rightarrow> bool" where
  "gsa_IsEnabled gsa = (case gsa of None \<Rightarrow> False | Some g \<Rightarrow> gsa_Enabled g)"

section \<open>The \<open>GatewayClient\<close> version\<close>

definition defaultConfigFileMode :: FileMode where
  "defaultConfigFileMode = 0x180"

definition GateEndpoint :: "st \<Rightarrow> string" where
  "GateEndpoint m =
     (if Gate_Endpoint (Config m) = [] \<and> gateEndpoint m = [] then ''http://localhost:8084''
      else if gateEndpoint m \<noteq> [] then gateEndpoint m
      else Gate_Endpoint (Config m))"

text \<open>
  \<open>prompt\<close> and \<open>securePrompt\<close> print the message and read one line of the terminal
  (nothing at end of input; the read error is dropped), the second without echo.
\<close>

definition read_line :: "st \<Rightarrow> string \<times> st" where
  "read_line m = (case stdin m of [] \<Rightarrow> ([], m) | l # ls \<Rightarrow> (l, m\<lparr>stdin := ls\<rparr>))"

definition prompt :: "env \<Rightarrow> string \<Rightarrow> st \<Rightarrow> string \<times> st" where
  "prompt env inputMsg m =
     (let m1 = emit (UiOutput inputMsg) m;
          (text', m2) = read_line (emit StdinReadString m1)
      in (strings_TrimSpace env text', m2))"

definition securePrompt :: "env \<Rightarrow> string \<Rightarrow> st \<Rightarrow> string \<times> st" where
  "securePrompt env inputMsg m =
     (let m1 = emit (UiOutput inputMsg) m;
          (secret, m2) = read_line (emit TerminalReadPassword m1)
      in (strings_TrimSpace env secret, m2))"

definition generateCodeVerifier :: "env \<Rightarrow> st \<Rightarrow> (string \<times> string \<times> error option) \<times> st" where
  "generateCodeVerifier env m =
     (let m1 = emit (RandRead 64) m in
      case rand_Read env (make_bytes 64) of
        Inl err \<Rightarrow>
          (([], [], Some err),
           emit (UiError ''Could not generate random string for code_verifier'') m1)
      | Inr randomBytes \<Rightarrow>
          (let verifier = base64_RawURLEncoding env randomBytes;
               verifierHash = sha256_Sum256 env verifier;
               code = base64_RawURLEncoding env verifierHash
           in ((verifier, code, None), m1)))"

definition writeYAML :: "env \<Rightarrow> config \<Rightarrow> string \<Rightarrow> FileMode \<Rightarrow> st \<Rightarrow> error option outcome \<times> st" where
  "writeYAML env v dest defaultMode m =
     (case yaml_Marshal env v of
        Inl err \<Rightarrow> (Return (Some err), m)
      | Inr buf \<Rightarrow>
          (let m1 = emit (Stat dest) m in
           case os_Stat env m1 dest of
             Inl err \<Rightarrow>
               if \<not> os_IsNotExist err then (Return None, m1)
               else (Panic, m1)
           | Inr info \<Rightarrow>
               (case ioutil_WriteFile env dest buf (file_Mode info) m1 of
                  (r, m2) \<Rightarrow> (Return r, m2))))"

definition writeYAMLConfig :: "env \<Rightarrow> st \<Rightarrow> error option outcome \<times> st" where
  "writeYAMLConfig env m =
     (case writeYAML env (Config m) (configLocation m) defaultConfigFileMode m of
        (Panic, m1) \<Rightarrow> (Panic, m1)
      | (Return None, m1) \<Rightarrow> (Return None, m1)
      | (Return (Some err), m1) \<Rightarrow>
          (Return (Some err),
           emit (UiWarn (''Error caching oauth2 token: '' @ error_Error err)) m1))"

definition login :: "env \<Rightarrow> string \<Rightarrow> st \<Rightarrow> error option outcome \<times> st" where
  "login env accessToken m =
     (case http_NewRequest env ''GET'' (GateEndpoint m @ ''/login'') None of
        Inl err \<Rightarrow> (Return (Some err), m)
      | Inr loginReq \<Rightarrow>
          (let loginReq1 = Header_Set loginReq ''Authorization'' (''Bearer '' @ accessToken) in
           case httpClient m of
             None \<Rightarrow> (Panic, m)
           | Some c \<Rightarrow>
               (let m1 = emit (HttpDo loginReq1) m in
                case http_Do env c loginReq1 of
                  Inl err \<Rightarrow> (Return None, m1)
                | Inr resp \<Rightarrow> (Return None, m1))))"

text \<open>
  The end of \<open>authenticateOAuth2\<close>, shared by its two branches: cache the token, write
  the configuration, log in, set the context.
\<close>

definition authenticateOAuth2_cache :: "env \<Rightarrow> token \<Rightarrow> st \<Rightarrow> error option outcome \<times> st" where
  "authenticateOAuth2_cache env newToken m =
     (let m1 = emit (UiInfo ''Caching oauth2 token.'') m;
          m2 = set_OAuth2_CachedToken (Some newToken) m1 in
      case writeYAMLConfig env m2 of
        (Panic, m3) \<Rightarrow> (Panic, m3)
      | (Return _, m3) \<Rightarrow>
          (case login env (AccessToken newToken) m3 of
             (Panic, m4) \<Rightarrow> (Panic, m4)
           | (Return _, m4) \<Rightarrow> (Return None, m4\<lparr>Context := Some Background\<rparr>)))"

definition oauth2_Config_of :: "oauth2_config \<Rightarrow> oauth2_Config" where
  "oauth2_Config_of c =
     \<lparr>ClientID = ClientId c, oa_ClientSecret = ClientSecret c,
      RedirectURL = ''http://localhost:8085'', oa_Scopes = Scopes c,
      Endpoint_AuthURL = AuthUrl c, Endpoint_TokenURL = TokenUrl c\<rparr>"

definition authenticateOAuth2 :: "env \<Rightarrow> st \<Rightarrow> error option outcome \<times> st" where
  "authenticateOAuth2 env m =
     (case Auth (Config m) of
        None \<Rightarrow> (Return None, m)
      | Some auth \<Rightarrow>
          (case OAuth2 auth of
             None \<Rightarrow> (Return None, m)
           | Some OAuth2' \<Rightarrow>
               if \<not> Enabled auth then (Return None, m)
               else if \<not> oauth2_IsValid env OAuth2' then
                 (Return (Some (errors_New ''incorrect OAuth2 auth configuration'')), m)
               else
                 (let config = oauth2_Config_of OAuth2' in
                  case CachedToken OAuth2' of
                    Some token \<Rightarrow>
                      (let m1 = emit (TokenSourceToken config token) m in
                       case TokenSource_Token env config token of
                         Inl err \<Rightarrow>
                           (Return (Some err),
                            emit (UiError (''Could not refresh token from source: ''
                                    @ fmt_TokenSource env config token)) m1)
                       | Inr newToken \<Rightarrow> authenticateOAuth2_cache env newToken m1)
                  | None \<Rightarrow>
                      (let m1 = emit (GoListenAndServe '':8085'') (emit (HttpHandle ''/'') m) in
                       case generateCodeVerifier env m1 of
                         ((verifier, verifierCode, Some err), m2) \<Rightarrow> (Return (Some err), m2)
                       | ((verifier, verifierCode, None), m2) \<Rightarrow>
                           (let codeVerifier = SetAuthURLParam ''code_verifier'' verifier;
                                codeChallenge = SetAuthURLParam ''code_challenge'' verifierCode;
                                challengeMethod = SetAuthURLParam ''code_challenge_method'' ''S256'';
                                authURL = AuthCodeURL env config ''state-token''
                                   [AccessTypeOffline, ApprovalForce, challengeMethod, codeChallenge];
                                m3 = emit (UiOutput (''Navigate to '' @ authURL @ '' and authenticate'')) m2;
                                (code, m4) = prompt env ''Paste authorization code:'' m3;
                                m5 = emit (Exchange config code [codeVerifier]) m4
                            in case oauth2_Exchange env config code [codeVerifier] of
                                 Inl err \<Rightarrow> (Return (Some err), m5)
                               | Inr newToken \<Rightarrow> authenticateOAuth2_cache env newToken m5)))))"

definition authenticateIAP :: "env \<Rightarrow> iap_config \<Rightarrow> st \<Rightarrow> (string \<times> error option) \<times> st" where
  "authenticateIAP env iapConfig m =
     (iap_GetIapToken env iapConfig, emit (GetIapToken iapConfig) m)"

text \<open>
  The second half of \<open>authenticateGoogleServiceAccount\<close>, taken when there is no valid
  cached token, in two steps: the choice of the token source, and from \<open>source.Token()\<close>
  on.
\<close>

definition authenticateGoogleServiceAccount_token ::
    "env \<Rightarrow> TokenSource \<Rightarrow> st \<Rightarrow> error option outcome \<times> st" where
  "authenticateGoogleServiceAccount_token env source m2 =
     (let m3 = emit (SourceToken source) m2 in
      case source_Token env source of
        Inl err \<Rightarrow> (Return (Some err), m3)
      | Inr token \<Rightarrow>
          (case login env (AccessToken token) m3 of
             (Panic, m4) \<Rightarrow> (Panic, m4)
           | (Return (Some err), m4) \<Rightarrow> (Return (Some err), m4)
           | (Return None, m4) \<Rightarrow>
               (let m5 = (set_gsa_CachedToken (Some token) m4)\<lparr>Context := Some Background\<rparr>
                in case writeYAMLConfig env m5 of
                     (Panic, m6) \<Rightarrow> (Panic, m6)
                   | (Return _, m6) \<Rightarrow> (Return None, m6))))"

definition authenticateGoogleServiceAccount_fetch ::
    "env \<Rightarrow> gsa_config \<Rightarrow> st \<Rightarrow> error option outcome \<times> st" where
  "authenticateGoogleServiceAccount_fetch env gsa m =
     (let m1 = set_gsa_CachedToken None m;
          (src, m2) =
            (if File gsa = [] then
               (google_DefaultTokenSource env [''profile'', ''email''],
                emit (GoogleDefaultTokenSource [''profile'', ''email'']) m1)
             else
               (case ioutil_ReadFile env m1 (File gsa) of
                  (Inl ferr, m') \<Rightarrow> (Inl ferr, m')
                | (Inr serviceAccountJSON, m') \<Rightarrow>
                    (google_JWTAccessTokenSourceFromJSON env serviceAccountJSON
                       ''https://accounts.google.com/o/oauth2/v2/auth'',
                     emit (GoogleJWTAccessTokenSourceFromJSON serviceAccountJSON
                       ''https://accounts.google.com/o/oauth2/v2/auth'') m')))
      in case src of
           Inl err \<Rightarrow> (Return (Some err), m2)
         | Inr source \<Rightarrow> authenticateGoogleServiceAccount_token env source m2)"

definition cached_valid :: "env \<Rightarrow> gsa_config \<Rightarrow> bool" where
  "cached_valid env gsa =
     (case gsa_CachedToken gsa of None \<Rightarrow> False | Some t \<Rightarrow> token_Valid env t)"

definition authenticateGoogleServiceAccount :: "env \<Rightarrow> st \<Rightarrow> error option outcome \<times> st" where
  "authenticateGoogleServiceAccount env m =
     (case Auth (Config m) of
        None \<Rightarrow> (Return None, m)
      | Some auth \<Rightarrow>
          if \<not> gsa_IsEnabled (GoogleServiceAccount auth) then (Return None, m)
          else
            (case GoogleServiceAccount auth of
               None \<Rightarrow> (Panic, m)
             | Some gsa \<Rightarrow>
                 (case gsa_CachedToken gsa of
                    Some t \<Rightarrow>
                      if token_Valid env t then login env (AccessToken t) m
                      else authenticateGoogleServiceAccount_fetch env gsa m
                  | None \<Rightarrow> authenticateGoogleServiceAccount_fetch env gsa m)))"

definition authenticateLdap :: "env \<Rightarrow> st \<Rightarrow> error option outcome \<times> st" where
  "authenticateLdap env m =
     (case Auth (Config m) of
        None \<Rightarrow> (Return None, m)
      | Some auth \<Rightarrow>
          (case Ldap auth of
             None \<Rightarrow> (Return None, m)
           | Some ldap \<Rightarrow>
               if \<not> Enabled auth then (Return None, m)
               else
                 (let (username, m1) =
                        (if ldap_Username ldap = [] then
                           (case prompt env ''Username:'' m of
                              (u, m') \<Rightarrow> (u, set_Ldap_Username u m'))
                         else (ldap_Username ldap, m));
                      (password, m2) =
                        (if ldap_Password ldap = [] then
                           (case securePrompt env ''Password:'' m1 of
                              (p, m') \<Rightarrow> (p, set_Ldap_Password p m'))
                         else (ldap_Password ldap, m1))
                  in if \<not> Ldap_IsValid \<lparr>ldap_Username = username, ldap_Password = password\<rparr> then
                       (Return (Some (errors_New
                          ''Incorrect LDAP auth configuration. Must include username and password.'')), m2)
                     else
                       (let form = Values_Add (Values_Add [] ''username'' username) ''password'' password in
                        case http_NewRequest env ''POST'' (GateEndpoint m2 @ ''/login'')
                               (Some (url_Values_Encode env form)) of
                          Inl err \<Rightarrow> (Panic, m2)
                        | Inr loginReq \<Rightarrow>
                            (let loginReq1 = Header_Set loginReq ''Content-Type''
                                   ''application/x-www-form-urlencoded'' in
                             case httpClient m2 of
                               None \<Rightarrow> (Panic, m2)
                             | Some c \<Rightarrow>
                                 (let m3 = emit (HttpDo loginReq1) m2 in
                                  case http_Do env c loginReq1 of
                                    Inl err \<Rightarrow>
                                      (Return (Some (errors_New ''ldap authentication failed'')), m3)
                                  | Inr resp \<Rightarrow> (Return None, m3\<lparr>Context := Some Background\<rparr>)))))))"

text \<open>
  \<open>initializeX509Config\<close> writes through the transport of the client it is given; the
  type assertion on a nil transport panics. The certificate pool it builds is not
  attached to anything.
\<close>

definition initializeX509Config :: "st \<Rightarrow> http_Client \<Rightarrow> bytes \<Rightarrow> certificate \<Rightarrow> http_Client outcome" where
  "initializeX509Config m client clientCA cert =
     (case Transport client of
        None \<Rightarrow> Panic
      | Some t \<Rightarrow>
          (case TLSClientConfig t of
             None \<Rightarrow> Panic
           | Some c \<Rightarrow>
               (let c1 = c\<lparr>MinVersion := VersionTLS12\<rparr>;
                    c2 = c1\<lparr>PreferServerCipherSuites := True\<rparr>;
                    c3 = c2\<lparr>Certificates := [cert]\<rparr>;
                    c4 = (if ignoreCertErrors m then c3\<lparr>InsecureSkipVerify := True\<rparr> else c3)
                in Return (client\<lparr>Transport := Some (t\<lparr>TLSClientConfig := Some c4\<rparr>)\<rparr>))))"

definition x509_error :: error where
  "x509_error = errors_New
     (''Incorrect x509 auth configuration.'' @ [CHR 0x0A] @ ''Must specify certPath/keyPath or cert/key pair.'')"

text \<open>
  The X509 branch of \<open>initializeClient\<close> (and of \<open>InitializeClient\<close>, which has the same
  text), after the transport is set.
\<close>

definition initializeClient_x509 ::
    "env \<Rightarrow> x509_config \<Rightarrow> http_Client \<Rightarrow> st \<Rightarrow> (http_Client option \<times> error option) outcome \<times> st" where
  "initializeClient_x509 env X509' client m =
     (if \<not> X509_IsValid X509' then (Return (None, Some x509_error), m)
      else if CertPath X509' \<noteq> [] \<and> KeyPath X509' \<noteq> [] then
        (case homedir_Expand env (CertPath X509') of
           Inl err \<Rightarrow> (Return (None, Some err), m)
         | Inr certPath \<Rightarrow>
             (case homedir_Expand env (KeyPath X509') of
                Inl err \<Rightarrow> (Return (None, Some err), m)
              | Inr keyPath \<Rightarrow>
                  (case tls_LoadX509KeyPair env certPath keyPath m of
                     (Inl err, m1) \<Rightarrow> (Return (None, Some err), m1)
                   | (Inr cert, m1) \<Rightarrow>
                       (case ioutil_ReadFile env m1 certPath of
                          (Inl err, m2) \<Rightarrow> (Return (None, Some err), m2)
                        | (Inr clientCA, m2) \<Rightarrow>
                            (case initializeX509Config m2 client clientCA cert of
                               Panic \<Rightarrow> (Panic, m2)
                             | Return c \<Rightarrow> (Return (Some c, None), m2))))))
      else if Cert X509' \<noteq> [] \<and> Key X509' \<noteq> [] then
        (let certBytes = Cert X509'; keyBytes = Key X509' in
         case tls_X509KeyPair env certBytes keyBytes of
           Inl err \<Rightarrow> (Return (None, Some err), m)
         | Inr cert \<Rightarrow>
             (case initializeX509Config m client certBytes cert of
                Panic \<Rightarrow> (Panic, m)
              | Return c \<Rightarrow> (Return (Some c, None), m)))
      else (Return (None, Some x509_error), m))"

text \<open>The insecure flag is written into the process-wide default transport.\<close>

definition set_DefaultTransport_insecure :: "st \<Rightarrow> st" where
  "set_DefaultTransport_insecure m =
     (if ignoreCertErrors m then
        m\<lparr>DefaultTransport_TLS := Some (tls_Config_zero\<lparr>InsecureSkipVerify := True\<rparr>)\<rparr>
      else m)"

definition initializeClient :: "env \<Rightarrow> st \<Rightarrow> (http_Client option \<times> error option) outcome \<times> st" where
  "initializeClient env m0 =
     (let auth = Auth (Config m0);
          client = \<lparr>Jar = True, Transport = None\<rparr>;
          m = set_DefaultTransport_insecure m0
      in case auth of
           None \<Rightarrow> (Return (Some client, None), m)
         | Some a \<Rightarrow>
             if \<not> Enabled a then (Return (Some client, None), m)
             else
               (case X509 a of
                  Some X509' \<Rightarrow>
                    initializeClient_x509 env X509'
                      (client\<lparr>Transport := Some \<lparr>TLSClientConfig = Some tls_Config_zero\<rparr>\<rparr>) m
                | None \<Rightarrow>
                    (case Iap a of
                       Some iapConfig \<Rightarrow>
                         (case authenticateIAP env iapConfig m of
                            ((accessToken, err), m1) \<Rightarrow>
                              (Return (Some client, err),
                               m1\<lparr>Context := Some (WithAccessToken accessToken)\<rparr>))
                     | None \<Rightarrow>
                         (case Basic a of
                            Some b \<Rightarrow>
                              if \<not> Basic_IsValid b then
                                (Return (None, Some (errors_New
                                   ''Incorrect Basic auth configuration. Must include username and password.'')), m)
                              else
                                (Return (Some client, None),
                                 m\<lparr>Context := Some (WithBasicAuth (basic_Username b) (basic_Password b))\<rparr>)
                          | None \<Rightarrow> (Return (Some client, None), m)))))"

text \<open>
  The handlers as \<open>NewGateClient\<close> runs them, from the initialisation of the HTTP
  client to the LDAP login; reading the configuration file before and building the
  API client after are not part of this.
\<close>

definition NewGateClient_handlers :: "env \<Rightarrow> st \<Rightarrow> error option outcome \<times> st" where
  "NewGateClient_handlers env gateClient =
     (case initializeClient env gateClient of
        (Panic, m1) \<Rightarrow> (Panic, m1)
      | (Return (httpClient', Some err), m1) \<Rightarrow>
          (Return (Some err), emit (UiError ''Could not initialize http client, failing.'') m1)
      | (Return (httpClient', None), m1) \<Rightarrow>
          (case authenticateOAuth2 env (m1\<lparr>httpClient := httpClient'\<rparr>) of
             (Panic, m2) \<Rightarrow> (Panic, m2)
           | (Return (Some err), m2) \<Rightarrow>
               (Return (Some err), emit (UiError ''OAuth2 Authentication failed.'') m2)
           | (Return None, m2) \<Rightarrow>
               (case authenticateGoogleServiceAccount env m2 of
                  (Panic, m3) \<Rightarrow> (Panic, m3)
                | (Return (Some err), m3) \<Rightarrow>
                    (Return (Some err),
                     emit (UiError (''Google service account authentication failed: ''
                             @ error_Error err)) m3)
                | (Return None, m3) \<Rightarrow>
                    (case authenticateLdap env m3 of
                       (Panic, m4) \<Rightarrow> (Panic, m4)
                     | (Return (Some err), m4) \<Rightarrow>
                         (Return (Some err), emit (UiError ''LDAP Authentication Failed'') m4)
                     | (Return None, m4) \<Rightarrow> (Return None, m4)))))"

section \<open>The \<open>ApiMeta\<close> version\<close>

text \<open>
  \<open>GateEndpoint\<close> and \<open>initializeX509Config\<close> have the same text in both versions and are
  shared. \<open>Prompt\<close> asks for the authorization code.
\<close>

definition Prompt :: "env \<Rightarrow> st \<Rightarrow> string \<times> st" where
  "Prompt env m =
     (let m1 = emit (UiOutput ''Paste authorization code:'') m;
          (text', m2) = read_line (emit StdinReadString m1)
      in (strings_TrimSpace env text', m2))"

text \<open>
  The end of \<open>Authenticate\<close>: the errors of \<open>yaml.Marshal\<close>, \<open>os.Stat\<close> and
  \<open>ioutil.WriteFile\<close> are dropped, and \<open>info.Mode()\<close> is called on whatever \<open>os.Stat\<close>
  returned.
\<close>

definition Authenticate_cache :: "env \<Rightarrow> token \<Rightarrow> st \<Rightarrow> error option outcome \<times> st" where
  "Authenticate_cache env newToken m =
     (let m1 = emit (UiInfo ''Caching oauth2 token.'') m;
          m2 = set_OAuth2_CachedToken (Some newToken) m1;
          buf = (case yaml_Marshal env (Config m2) of Inl err \<Rightarrow> [] | Inr b \<Rightarrow> b);
          m3 = emit (Stat (configLocation m2)) m2
      in case os_Stat env m3 (configLocation m3) of
           Inl err \<Rightarrow> (Panic, m3)
         | Inr info \<Rightarrow>
             (case ioutil_WriteFile env (configLocation m3) buf (file_Mode info) m3 of
                (r, m4) \<Rightarrow>
                  (Return None, m4\<lparr>Context := Some (WithAccessToken (AccessToken newToken))\<rparr>)))"

definition Authenticate :: "env \<Rightarrow> st \<Rightarrow> error option outcome \<times> st" where
  "Authenticate env m =
     (case Auth (Config m) of
        None \<Rightarrow> (Return None, m)
      | Some auth \<Rightarrow>
          (case OAuth2 auth of
             None \<Rightarrow> (Return None, m)
           | Some OAuth2' \<Rightarrow>
               if \<not> Enabled auth then (Return None, m)
               else if \<not> oauth2_IsValid env OAuth2' then
                 (Return (Some (errors_New ''incorrect OAuth2 auth configuration'')), m)
               else
                 (let config = oauth2_Config_of OAuth2' in
                  case CachedToken OAuth2' of
                    Some token \<Rightarrow>
                      (let m1 = emit (TokenSourceToken config token) m in
                       case TokenSource_Token env config token of
                         Inl err \<Rightarrow>
                           (Return (Some err),
                            emit (UiError (''Could not refresh token from source: ''
                                    @ fmt_TokenSource env config token)) m1)
                       | Inr newToken \<Rightarrow> Authenticate_cache env newToken m1)
                  | None \<Rightarrow>
                      (let m1 = emit (GoListenAndServe '':8085'') (emit (HttpHandle ''/'') m);
                           m2 = emit (RandRead 5) m1 in
                       case rand_Read env (make_bytes 5) of
                         Inl err \<Rightarrow>
                           (Return (Some err),
                            emit (UiError ''Could not generate random string for code_verifier'') m2)
                       | Inr verifierBytes \<Rightarrow>
                           (let verifier = verifierBytes;
                                codeChallenge = SetAuthURLParam ''code_challenge'' verifier;
                                codeVerifier = SetAuthURLParam ''code_verifier'' verifier;
                                authURL = AuthCodeURL env config ''state-token''
                                   [AccessTypeOffline, ApprovalForce, codeChallenge];
                                m3 = emit (UiOutput (''Navigate to '' @ authURL @ '' and authenticate'')) m2;
                                (code, m4) = Prompt env m3;
                                m5 = emit (Exchange config code [codeVerifier]) m4
                            in case oauth2_Exchange env config code [codeVerifier] of
                                 Inl err \<Rightarrow> (Return (Some err), m5)
                               | Inr newToken \<Rightarrow> Authenticate_cache env newToken m5)))))"

definition InitializeClient :: "env \<Rightarrow> st \<Rightarrow> (http_Client option \<times> error option) outcome \<times> st" where
  "InitializeClient env m0 =
     (let auth = Auth (Config m0);
          client = \<lparr>Jar = True, Transport = None\<rparr>;
          m = set_DefaultTransport_insecure m0
      in case auth of
           None \<Rightarrow> (Return (Some client, None), m)
         | Some a \<Rightarrow>
             if \<not> Enabled a then (Return (Some client, None), m)
             else
               (case X509 a of
                  Some X509' \<Rightarrow>
                    initializeClient_x509 env X509'
                      (client\<lparr>Transport := Some \<lparr>TLSClientConfig = Some tls_Config_zero\<rparr>\<rparr>) m
                | None \<Rightarrow>
                    (case Basic a of
                       Some b \<Rightarrow>
                         if \<not> Basic_IsValid b then
                           (Return (None, Some (errors_New
                              ''incorrect Basic auth configuration. Must include username and password'')), m)
                         else
                           (Return (Some client, None),
                            m\<lparr>Context := Some (WithBasicAuth (basic_Username b) (basic_Password b))\<rparr>)
                     | None \<Rightarrow> (Return (Some client, None), m))))"

section \<open>Vocabulary of the properties\<close>

text \<open>
  \<open>grows P m m'\<close>: the run from \<open>m\<close> to \<open>m'\<close> has only added events to the trace, and
  each added event satisfies \<open>P\<close>.
\<close>

definition grows :: "(event \<Rightarrow> bool) \<Rightarrow> st \<Rightarrow> st \<Rightarrow> bool" where
  "grows P m m' \<longleftrightarrow>
     take (length (trace m)) (trace m') = trace m \<and>
     list_all P (drop (length (trace m)) (trace m'))"

text \<open>
  The events of the interactive authorization flow: the local listener, the random
  verifier, anything printed for the user to act on, a read of the terminal, the
  exchange of the code.
\<close>

fun is_authorization_flow :: "event \<Rightarrow> bool" where
  "is_authorization_flow (UiOutput _) = True"
| "is_authorization_flow StdinReadString = True"
| "is_authorization_flow TerminalReadPassword = True"
| "is_authorization_flow (HttpHandle _) = True"
| "is_authorization_flow (GoListenAndServe _) = True"
| "is_authorization_flow (RandRead _) = True"
| "is_authorization_flow (Exchange _ _ _) = True"
| "is_authorization_flow _ = False"

text \<open>
  The TLS configuration a client works with (\<open>net/http\<close>): that of its own transport,
  or, with a nil transport, that of \<open>http.DefaultTransport\<close>.
\<close>

definition client_tls :: "st \<Rightarrow> http_Client \<Rightarrow> tls_Config option" where
  "client_tls m c =
     (case Transport c of None \<Rightarrow> DefaultTransport_TLS m | Some t \<Rightarrow> TLSClientConfig t)"

text \<open>When each handler is enabled, as the conditions of the code read.\<close>

definition x509_on :: "st \<Rightarrow> bool" where
  "x509_on m = (case Auth (Config m) of None \<Rightarrow> False | Some a \<Rightarrow> Enabled a \<and> X509 a \<noteq> None)"

definition iap_on :: "st \<Rightarrow> bool" where
  "iap_on m = (case Auth (Config m) of None \<Rightarrow> False | Some a \<Rightarrow> Enabled a \<and> Iap a \<noteq> None)"

definition basic_on :: "st \<Rightarrow> bool" where
  "basic_on m = (case Auth (Config m) of None \<Rightarrow> False | Some a \<Rightarrow> Enabled a \<and> Basic a \<noteq> None)"

definition oauth2_on :: "st \<Rightarrow> bool" where
  "oauth2_on m = (case Auth (Config m) of None \<Rightarrow> False | Some a \<Rightarrow> Enabled a \<and> OAuth2 a \<noteq> None)"

definition gsa_on :: "st \<Rightarrow> bool" where
  "gsa_on m =
     (case Auth (Config m) of None \<Rightarrow> False | Some a \<Rightarrow> gsa_IsEnabled (GoogleServiceAccount a))"

definition ldap_on :: "st \<Rightarrow> bool" where
  "ldap_on m = (case Auth (Config m) of None \<Rightarrow> False | Some a \<Rightarrow> Enabled a \<and> Ldap a \<noteq> None)"

text \<open>The Google service account section holds a token that is still valid.\<close>

definition gsa_cached_valid :: "env \<Rightarrow> st \<Rightarrow> bool" where
  "gsa_cached_valid env m =
     (case Auth (Config m) of
        None \<Rightarrow> False
      | Some a \<Rightarrow> (case GoogleServiceAccount a of None \<Rightarrow> False | Some g \<Rightarrow> cached_valid env g))"

text \<open>What the LDAP handler reads from the terminal and sends.\<close>

definition next_line :: "string list \<Rightarrow> string" where
  "next_line ls = (case ls of [] \<Rightarrow> [] | l # _ \<Rightarrow> l)"

definition ldap_prompts :: "ldap_config \<Rightarrow> event list" where
  "ldap_prompts l =
     (if ldap_Username l = [] then [UiOutput ''Username:'', StdinReadString] else []) @
     (if ldap_Password l = [] then [UiOutput ''Password:'', TerminalReadPassword] else [])"

definition ldap_username :: "env \<Rightarrow> st \<Rightarrow> ldap_config \<Rightarrow> string" where
  "ldap_username env m l =
     (if ldap_Username l = [] then strings_TrimSpace env (next_line (stdin m))
      else ldap_Username l)"

definition ldap_password :: "env \<Rightarrow> st \<Rightarrow> ldap_config \<Rightarrow> string" where
  "ldap_password env m l =
     (if ldap_Password l = [] then
        strings_TrimSpace env
          (next_line (if ldap_Username l = [] then tl (stdin m) else stdin m))
      else ldap_Password l)"

definition ldap_login_request :: "env \<Rightarrow> st \<Rightarrow> string \<Rightarrow> string \<Rightarrow> http_Request" where
  "ldap_login_request env m u p =
     \<lparr>Method = ''POST'', URL = GateEndpoint m @ ''/login'',
      Header = [(''Content-Type'', ''application/x-www-form-urlencoded'')],
      Body = Some (url_Values_Encode env [(''username'', [u]), (''password'', [p])])\<rparr>"

text \<open>The request of the session login.\<close>

definition login_request :: "st \<Rightarrow> string \<Rightarrow> http_Request" where
  "login_request m accessToken =
     \<lparr>Method = ''GET'', URL = GateEndpoint m @ ''/login'',
      Header = [(''Authorization'', ''Bearer '' @ accessToken)], Body = None\<rparr>"

text \<open>The conditions under which the session login and the write of the configuration go through.\<close>

definition login_possible :: "env \<Rightarrow> st \<Rightarrow> bool" where
  "login_possible env m \<longleftrightarrow>
     url_Parse_error env (GateEndpoint m @ ''/login'') = None \<and> httpClient m \<noteq> None"

definition write_possible :: "env \<Rightarrow> st \<Rightarrow> bool" where
  "write_possible env m \<longleftrightarrow>
     stat_fault env (configLocation m) = None \<and> write_fault env (configLocation m) = None \<and>
     fs m (configLocation m) \<noteq> None"

text \<open>
  The context after the client initialisation: what the one branch taken, the first of
  X509, IAP and Basic whose section is present, has set.
\<close>

definition first_group_context :: "env \<Rightarrow> st \<Rightarrow> go_context option" where
  "first_group_context env m =
     (case Auth (Config m) of
        None \<Rightarrow> Context m
      | Some a \<Rightarrow>
          if \<not> Enabled a then Context m
          else
            (case X509 a of
               Some x \<Rightarrow> Context m
             | None \<Rightarrow>
                 (case Iap a of
                    Some i \<Rightarrow> Some (WithAccessToken (fst (iap_GetIapToken env i)))
                  | None \<Rightarrow>
                      (case Basic a of
                         Some b \<Rightarrow> Some (WithBasicAuth (basic_Username b) (basic_Password b))
                       | None \<Rightarrow> Context m))))"

text \<open>
  The context C3 predicts, the last enabled handler in the order X509, IAP, Basic,
  OAuth2, GoogleServiceAccount, LDAP having set the context.
\<close>

definition claimed_final_context :: "env \<Rightarrow> st \<Rightarrow> go_context option" where
  "claimed_final_context env m =
     (case Auth (Config m) of
        None \<Rightarrow> Context m
      | Some a \<Rightarrow>
          if ldap_on m \<or> gsa_on m \<or> oauth2_on m then Some Background
          else
            (case Basic a of
               Some b \<Rightarrow> if Enabled a then Some (WithBasicAuth (basic_Username b) (basic_Password b))
                         else Context m
             | None \<Rightarrow>
                 (case Iap a of
                    Some i \<Rightarrow> if Enabled a then Some (WithAccessToken (fst (iap_GetIapToken env i)))
                              else Context m
                  | None \<Rightarrow> Context m)))"

text \<open>The events a run from \<open>m\<close> to \<open>m'\<close> has added to the trace.\<close>

definition new_events :: "st \<Rightarrow> st \<Rightarrow> event list" where
  "new_events m m' = drop (length (trace m)) (trace m')"

text \<open>
  The events each step of \<open>NewGateClient\<close> can produce: the client initialisation
  (the IAP token request, the reads of the certificate files), the OAuth2 handler, the
  Google service account handler, the LDAP handler, and the report of a failure. The
  session login of the OAuth2 and Google service account handlers is a \<open>GET\<close>, the
  login of LDAP a \<open>POST\<close>.
\<close>

fun init_event :: "event \<Rightarrow> bool" where
  "init_event (GetIapToken _) = True"
| "init_event (ReadFile _) = True"
| "init_event _ = False"

fun oauth2_event :: "event \<Rightarrow> bool" where
  "oauth2_event (TokenSourceToken _ _) = True"
| "oauth2_event (UiError _) = True"
| "oauth2_event (HttpHandle _) = True"
| "oauth2_event (GoListenAndServe _) = True"
| "oauth2_event (RandRead _) = True"
| "oauth2_event (UiOutput _) = True"
| "oauth2_event StdinReadString = True"
| "oauth2_event (Exchange _ _ _) = True"
| "oauth2_event (UiInfo _) = True"
| "oauth2_event (Stat _) = True"
| "oauth2_event (WriteFile _ _ _) = True"
| "oauth2_event (UiWarn _) = True"
| "oauth2_event (HttpDo r) = (Method r = ''GET'')"
| "oauth2_event _ = False"

fun gsa_event :: "event \<Rightarrow> bool" where
  "gsa_event (GoogleDefaultTokenSource _) = True"
| "gsa_event (GoogleJWTAccessTokenSourceFromJSON _ _) = True"
| "gsa_event (ReadFile _) = True"
| "gsa_event (SourceToken _) = True"
| "gsa_event (Stat _) = True"
| "gsa_event (WriteFile _ _ _) = True"
| "gsa_event (UiWarn _) = True"
| "gsa_event (HttpDo r) = (Method r = ''GET'')"
| "gsa_event _ = False"

fun ldap_event :: "event \<Rightarrow> bool" where
  "ldap_event (UiOutput _) = True"
| "ldap_event StdinReadString = True"
| "ldap_event TerminalReadPassword = True"
| "ldap_event (HttpDo r) = (Method r = ''POST'')"
| "ldap_event _ = False"

fun report_event :: "event \<Rightarrow> bool" where
  "report_event (UiError _) = True"
| "report_event _ = False"

text \<open>The token cached in the Google service account section of the configuration.\<close>

definition stored_gsa_token :: "st \<Rightarrow> token option" where
  "stored_gsa_token m =
     (case Auth (Config m) of
        None \<Rightarrow> None
      | Some a \<Rightarrow> (case GoogleServiceAccount a of None \<Rightarrow> None | Some g \<Rightarrow> gsa_CachedToken g))"

text \<open>
  The token source the Google service account handler gets, with the events of getting
  it: the default credentials when no key file is configured, and else the source built
  from the content of the key file.
\<close>

definition source_chosen :: "env \<Rightarrow> st \<Rightarrow> gsa_config \<Rightarrow> TokenSource \<Rightarrow> event list \<Rightarrow> bool" where
  "source_chosen env m g source pre \<longleftrightarrow>
     (if File g = [] then
        google_DefaultTokenSource env [''profile'', ''email''] = Inr source \<and>
        pre = [GoogleDefaultTokenSource [''profile'', ''email'']]
      else
        (case fs m (File g) of
           None \<Rightarrow> False
         | Some jf \<Rightarrow>
             read_fault env (File g) = None \<and>
             google_JWTAccessTokenSourceFromJSON env (content jf)
               ''https://accounts.google.com/o/oauth2/v2/auth'' = Inr source \<and>
             pre = [ReadFile (File g),
                    GoogleJWTAccessTokenSourceFromJSON (content jf)
                      ''https://accounts.google.com/o/oauth2/v2/auth'']))"

text \<open>The events of a write of the configuration file.\<close>

fun is_config_write :: "event \<Rightarrow> bool" where
  "is_config_write (Stat _) = True"
| "is_config_write (WriteFile _ _ _) = True"
| "is_config_write (UiWarn _) = True"
| "is_config_write _ = False"

section \<open>Example runs\<close>

text \<open>
  A world in which every library call answers with text that shows what it was given,
  nothing fails, and the configuration file exists with mode 0644.
\<close>

fun render_opt :: "AuthCodeOption \<Rightarrow> string" where
  "render_opt (SetAuthURLParam k v) = ''&'' @ k @ ''='' @ v"
| "render_opt AccessTypeOffline = ''&access_type=offline''"
| "render_opt ApprovalForce = ''&prompt=consent''"

definition ex_token :: "string \<Rightarrow> token" where
  "ex_token a = \<lparr>AccessToken = a, RefreshToken = ''refresh'', Expiry = 3600\<rparr>"

definition ex_env :: env where
  "ex_env =
     \<lparr>rand_source = (\<lambda>n. Inr (replicate n (CHR ''r''))),
      base64_RawURLEncoding = (\<lambda>b. ''b64('' @ b @ '')''),
      sha256_Sum256 = (\<lambda>b. ''sha256('' @ b @ '')''),
      strings_TrimSpace = (\<lambda>s. s),
      oauth2_IsValid = (\<lambda>c. ClientId c \<noteq> []),
      token_Valid = (\<lambda>t. AccessToken t \<noteq> [] \<and> 0 < Expiry t),
      fmt_TokenSource = (\<lambda>c t. ''source''),
      AuthCodeURL = (\<lambda>c state opts. Endpoint_AuthURL c @ ''?state='' @ state @ concat (map render_opt opts)),
      TokenSource_Token = (\<lambda>c t. Inr (ex_token ''refreshed'')),
      oauth2_Exchange = (\<lambda>c code opts. Inr (ex_token ''exchanged'')),
      iap_GetIapToken = (\<lambda>c. (''iap-token'', None)),
      google_DefaultTokenSource = (\<lambda>scopes. Inr (TokenSource ''default'')),
      google_JWTAccessTokenSourceFromJSON = (\<lambda>json aud. Inr (TokenSource ''jwt'')),
      source_Token = (\<lambda>src. Inr (ex_token ''fetched'')),
      url_Parse_error = (\<lambda>u. None),
      url_Values_Encode = (\<lambda>vs. concat (map (\<lambda>kv. fst kv @ ''='' @ concat (snd kv) @ '';'') vs)),
      http_Do = (\<lambda>c r. Inr 200),
      homedir_Expand = (\<lambda>p. Inr p),
      tls_X509KeyPair = (\<lambda>c k. Inr (Certificate c k)),
      yaml_Marshal = (\<lambda>c. Inr ''yaml''),
      stat_fault = (\<lambda>p. None),
      read_fault = (\<lambda>p. None),
      write_fault = (\<lambda>p. None),
      umask = 0x12\<rparr>"

definition ex_auth :: auth_config where
  "ex_auth =
     \<lparr>Enabled = True, X509 = None, OAuth2 = None, Basic = None, Iap = None, Ldap = None,
      GoogleServiceAccount = None\<rparr>"

definition ex_st :: "auth_config option \<Rightarrow> st" where
  "ex_st a =
     \<lparr>Config = \<lparr>Gate_Endpoint = ''https://gate'', Auth = a\<rparr>,
      Context = None,
      gateEndpoint = [],
      ignoreCertErrors = False,
      configLocation = ''/home/u/.spin/config'',
      httpClient = Some \<lparr>Jar = True, Transport = None\<rparr>,
      DefaultTransport_TLS = None,
      fs = [''/home/u/.spin/config'' \<mapsto> \<lparr>file_Mode = 0x1A4, content = ''old''\<rparr>],
      stdin = [''typed''],
      trace = []\<rparr>"

definition ex_oauth2 :: "token option \<Rightarrow> oauth2_config" where
  "ex_oauth2 t =
     \<lparr>ClientId = ''id'', ClientSecret = ''secret'', AuthUrl = ''https://idp/auth'',
      TokenUrl = ''https://idp/token'', Scopes = [''profile''], CachedToken = t\<rparr>"

definition ex_oauth2_st :: "token option \<Rightarrow> st" where
  "ex_oauth2_st t = ex_st (Some (ex_auth\<lparr>OAuth2 := Some (ex_oauth2 t)\<rparr>))"

definition ex_x509_st :: "x509_config \<Rightarrow> st" where
  "ex_x509_st x = ex_st (Some (ex_auth\<lparr>X509 := Some x\<rparr>))"

definition ex_basic_st :: st where
  "ex_basic_st =
     (ex_st (Some (ex_auth\<lparr>Basic := Some \<lparr>basic_Username = ''u'', basic_Password = ''p''\<rparr>\<rparr>)))
       \<lparr>ignoreCertErrors := True\<rparr>"

definition ex_ldap_st :: "ldap_config \<Rightarrow> st" where
  "ex_ldap_st l = ex_st (Some (ex_auth\<lparr>Ldap := Some l\<rparr>))"

definition ex_gsa_st :: "token option \<Rightarrow> st" where
  "ex_gsa_st t =
     ex_st (Some (ex_auth\<lparr>GoogleServiceAccount :=
       Some \<lparr>gsa_Enabled = True, File = [], gsa_CachedToken = t\<rparr>\<rparr>))"

text \<open>IAP and Basic both configured; and IAP with all of OAuth2, Google service account and LDAP.\<close>

definition ex_iap_basic_st :: st where
  "ex_iap_basic_st =
     ex_st (Some (ex_auth
       \<lparr>Basic := Some \<lparr>basic_Username = ''u'', basic_Password = ''p''\<rparr>,
        Iap := Some (IapConfig [(''iapclientid'', ''id'')])\<rparr>))"

definition ex_all_st :: st where
  "ex_all_st =
     ex_st (Some (ex_auth
       \<lparr>OAuth2 := Some (ex_oauth2 (Some (ex_token ''cached''))),
        Iap := Some (IapConfig [(''iapclientid'', ''id'')]),
        Ldap := Some \<lparr>ldap_Username = ''u'', ldap_Password = ''p''\<rparr>,
        GoogleServiceAccount := Some \<lparr>gsa_Enabled = True, File = [], gsa_CachedToken = None\<rparr>\<rparr>))"

text \<open>The same world with a disk that refuses the write, and with a directory that cannot be read.\<close>

definition ex_env_write_fault :: env where
  "ex_env_write_fault = ex_env\<lparr>write_fault := (\<lambda>p. Some ''disk full'')\<rparr>"

definition ex_env_stat_fault :: env where
  "ex_env_stat_fault = ex_env\<lparr>stat_fault := (\<lambda>p. Some ''permission denied'')\<rparr>"

section \<open>Lemmas on the state and the trace\<close>

subsection \<open>Frame lemmas\<close>

lemma emit_fields [simp]:
  "trace (emit e m) = trace m @ [e]"
  "Config (emit e m) = Config m"
  "Context (emit e m) = Context m"
  "gateEndpoint (emit e m) = gateEndpoint m"
  "ignoreCertErrors (emit e m) = ignoreCertErrors m"
  "configLocation (emit e m) = configLocation m"
  "httpClient (emit e m) = httpClient m"
  "DefaultTransport_TLS (emit e m) = DefaultTransport_TLS m"
  "fs (emit e m) = fs m"
  "stdin (emit e m) = stdin m"
  by (simp_all add: emit_def)

lemma upd_auth_fields [simp]:
  "trace (upd_auth f m) = trace m"
  "Config (upd_auth f m) = (Config m)\<lparr>Auth := map_option f (Auth (Config m))\<rparr>"
  "Context (upd_auth f m) = Context m"
  "gateEndpoint (upd_auth f m) = gateEndpoint m"
  "ignoreCertErrors (upd_auth f m) = ignoreCertErrors m"
  "configLocation (upd_auth f m) = configLocation m"
  "httpClient (upd_auth f m) = httpClient m"
  "DefaultTransport_TLS (upd_auth f m) = DefaultTransport_TLS m"
  "fs (upd_auth f m) = fs m"
  "stdin (upd_auth f m) = stdin m"
  by (simp_all add: upd_auth_def)

lemma GateEndpoint_emit [simp]: "GateEndpoint (emit e m) = GateEndpoint m"
  by (simp add: GateEndpoint_def)

lemma GateEndpoint_upd_auth [simp]: "GateEndpoint (upd_auth f m) = GateEndpoint m"
  by (simp add: GateEndpoint_def)

lemma GateEndpoint_Context [simp]: "GateEndpoint (m\<lparr>Context := c\<rparr>) = GateEndpoint m"
  by (simp add: GateEndpoint_def)

lemma GateEndpoint_stdin [simp]: "GateEndpoint (m\<lparr>stdin := c\<rparr>) = GateEndpoint m"
  by (simp add: GateEndpoint_def)

subsection \<open>Growth of the trace\<close>

lemma growsI: "trace m' = trace m @ evs \<Longrightarrow> \<forall>e\<in>set evs. P e \<Longrightarrow> grows P m m'"
  by (simp add: grows_def list_all_iff)

lemma growsD: "grows P m m' \<Longrightarrow> \<exists>evs. trace m' = trace m @ evs \<and> (\<forall>e\<in>set evs. P e)"
  unfolding grows_def list_all_iff
  by (metis append_take_drop_id)

lemma grows_refl [simp]: "grows P m m"
  by (simp add: grows_def)

lemma grows_same: "trace m' = trace m \<Longrightarrow> grows P m m'"
  by (simp add: grows_def)

lemma grows_trans: "grows P a b \<Longrightarrow> grows P b c \<Longrightarrow> grows P a c"
proof -
  assume "grows P a b" "grows P b c"
  then obtain xs ys where "trace b = trace a @ xs" "\<forall>e\<in>set xs. P e"
    "trace c = trace b @ ys" "\<forall>e\<in>set ys. P e"
    by (blast dest: growsD)
  then show ?thesis
    by (intro growsI [where evs = "xs @ ys"]) auto
qed

lemma grows_emit: "P e \<Longrightarrow> grows P m (emit e m)"
  by (rule growsI [where evs = "[e]"]) simp_all

lemma grows_emit_after: "grows P m m' \<Longrightarrow> P e \<Longrightarrow> grows P m (emit e m')"
  by (blast intro: grows_trans grows_emit)

lemma grows_from_same: "trace a = trace b \<Longrightarrow> grows P b c \<Longrightarrow> grows P a c"
  by (simp add: grows_def)

lemma grows_to_same: "grows P a b \<Longrightarrow> trace c = trace b \<Longrightarrow> grows P a c"
  by (simp add: grows_def)

lemma read_line_trace [simp]: "trace (snd (read_line m)) = trace m"
  by (simp add: read_line_def split: list.splits)

lemma prompt_trace:
  "trace (snd (prompt env msg m)) = trace m @ [UiOutput msg, StdinReadString]"
  by (simp add: prompt_def Let_def split: prod.splits list.splits add: read_line_def)

lemma Prompt_trace:
  "trace (snd (Prompt env m)) = trace m @ [UiOutput ''Paste authorization code:'', StdinReadString]"
  by (simp add: Prompt_def Let_def split: prod.splits list.splits add: read_line_def)

lemma securePrompt_trace:
  "trace (snd (securePrompt env msg m)) = trace m @ [UiOutput msg, TerminalReadPassword]"
  by (simp add: securePrompt_def Let_def split: prod.splits list.splits add: read_line_def)

lemma login_cases:
  "login env tok m =
     (case url_Parse_error env (GateEndpoint m @ ''/login'') of
        Some err \<Rightarrow> (Return (Some err), m)
      | None \<Rightarrow> (case httpClient m of None \<Rightarrow> (Panic, m)
          | Some c \<Rightarrow> (Return None, emit (HttpDo \<lparr>Method = ''GET'', URL = GateEndpoint m @ ''/login'',
               Header = [(''Authorization'', ''Bearer '' @ tok)], Body = None\<rparr>) m)))"
  by (simp add: login_def http_NewRequest_def Header_Set_def Let_def split: option.splits sum.splits)

lemma login_grows: "(\<And>r. P (HttpDo r)) \<Longrightarrow> grows P m (snd (login env tok m))"
  by (simp add: login_cases grows_emit split: option.splits)

lemma WriteFile_trace:
  "trace (snd (ioutil_WriteFile env name data perm m)) = trace m @ [WriteFile name data perm]"
  by (simp add: ioutil_WriteFile_def Let_def split: option.splits)

lemma WriteFile_grows:
  "P (WriteFile name data perm) \<Longrightarrow> grows P m (snd (ioutil_WriteFile env name data perm m))"
  by (rule growsI [where evs = "[WriteFile name data perm]"]) (simp_all add: WriteFile_trace)

lemma writeYAML_grows:
  assumes "\<And>n. P (Stat n)" and "\<And>n b p. P (WriteFile n b p)"
  shows "grows P m (snd (writeYAML env v dest mode m))"
proof (cases "yaml_Marshal env v")
  case (Inl err)
  then show ?thesis by (simp add: writeYAML_def)
next
  case (Inr buf)
  have step: "grows P m (emit (Stat dest) m)"
    by (simp add: grows_emit assms)
  show ?thesis
  proof (cases "os_Stat env (emit (Stat dest) m) dest")
    case (Inl err)
    with Inr step show ?thesis by (simp add: writeYAML_def Let_def)
  next
    case (Inr info)
    have "grows P (emit (Stat dest) m)
            (snd (ioutil_WriteFile env dest buf (file_Mode info) (emit (Stat dest) m)))"
      by (rule WriteFile_grows) (rule assms)
    with step have "grows P m (snd (ioutil_WriteFile env dest buf (file_Mode info) (emit (Stat dest) m)))"
      by (rule grows_trans)
    with Inr \<open>yaml_Marshal env v = Inr buf\<close> show ?thesis
      by (auto simp: writeYAML_def Let_def split: prod.splits)
  qed
qed

lemma writeYAMLConfig_grows:
  "(\<And>n. P (Stat n)) \<Longrightarrow> (\<And>n b p. P (WriteFile n b p)) \<Longrightarrow> (\<And>s. P (UiWarn s)) \<Longrightarrow>
   grows P m (snd (writeYAMLConfig env m))"
  using writeYAML_grows [of P m env "Config m" "configLocation m" defaultConfigFileMode]
  by (auto simp: writeYAMLConfig_def grows_emit_after split: prod.splits outcome.splits option.splits)

section \<open>Session login and the token cache\<close>

subsection \<open>http_Do is not consulted\<close>

lemma os_Stat_http_Do: "os_Stat (env\<lparr>http_Do := d\<rparr>) m n = os_Stat env m n"
  by (simp add: os_Stat_def)

lemma WriteFile_http_Do: "ioutil_WriteFile (env\<lparr>http_Do := d\<rparr>) n b p m = ioutil_WriteFile env n b p m"
  by (simp add: ioutil_WriteFile_def Let_def split: option.splits)

lemma writeYAML_http_Do: "writeYAML (env\<lparr>http_Do := d\<rparr>) v dest mode m = writeYAML env v dest mode m"
  by (simp add: writeYAML_def os_Stat_http_Do WriteFile_http_Do Let_def split: sum.splits)

lemma writeYAMLConfig_http_Do: "writeYAMLConfig (env\<lparr>http_Do := d\<rparr>) m = writeYAMLConfig env m"
  by (simp add: writeYAMLConfig_def writeYAML_http_Do)

lemma ReadFile_http_Do: "ioutil_ReadFile (env\<lparr>http_Do := d\<rparr>) m n = ioutil_ReadFile env m n"
  by (simp add: ioutil_ReadFile_def)

lemma login_http_Do: "login (env\<lparr>http_Do := d\<rparr>) tok m = login env tok m"
  by (simp add: login_cases)

lemma token_http_Do:
  "authenticateGoogleServiceAccount_token (env\<lparr>http_Do := d\<rparr>) src m =
   authenticateGoogleServiceAccount_token env src m"
  by (simp add: authenticateGoogleServiceAccount_token_def login_http_Do writeYAMLConfig_http_Do
      Let_def split: sum.splits prod.splits outcome.splits option.splits)

lemma fetch_http_Do:
  "authenticateGoogleServiceAccount_fetch (env\<lparr>http_Do := d\<rparr>) g m =
   authenticateGoogleServiceAccount_fetch env g m"
  by (simp add: authenticateGoogleServiceAccount_fetch_def token_http_Do
      ReadFile_http_Do Let_def split: sum.splits prod.splits)

lemma gsa_http_Do:
  "authenticateGoogleServiceAccount (env\<lparr>http_Do := d\<rparr>) m = authenticateGoogleServiceAccount env m"
  by (simp add: authenticateGoogleServiceAccount_def login_http_Do fetch_http_Do split: option.splits)

subsection \<open>Writing the configuration\<close>

text \<open>
  C2, at a destination where no file exists: \<open>writeYAML\<close> does not create the file with
  the default mode. \<open>os.Stat\<close> returns no file information, the not-exist error passes
  the guard, and \<open>info.Mode()\<close> panics; the default mode is never used.
\<close>

theorem writeYAML_missing_file_panics:
  "yaml_Marshal env v = Inr buf \<Longrightarrow> stat_fault env dest = None \<Longrightarrow> fs m dest = None \<Longrightarrow>
   writeYAML env v dest defaultMode m = (Panic, emit (Stat dest) m)"
  by (simp add: writeYAML_def os_Stat_def Let_def)

theorem writeYAML_missing_file_panics_witness:
  "fst (writeYAML ex_env (Config (ex_st None)) ''/home/u/.spin/config'' defaultConfigFileMode
          ((ex_st None)\<lparr>fs := Map.empty\<rparr>)) = Panic \<and>
   fs (snd (writeYAML ex_env (Config (ex_st None)) ''/home/u/.spin/config'' defaultConfigFileMode
          ((ex_st None)\<lparr>fs := Map.empty\<rparr>))) ''/home/u/.spin/config'' = None"
  using writeYAML_missing_file_panics
    [of ex_env "Config (ex_st None)" "''yaml''" "''/home/u/.spin/config''"
        "(ex_st None)\<lparr>fs := Map.empty\<rparr>" defaultConfigFileMode]
  by (simp add: ex_env_def)

text \<open>
  The other half of C2 holds: an existing file keeps its mode, and a write is always
  asked for with that mode.
\<close>

lemma writeYAML_existing_file:
  assumes "fs m dest = Some f"
  shows "\<exists>r m'. writeYAML env v dest defaultMode m = (Return r, m') \<and>
           (\<exists>f'. fs m' dest = Some f' \<and> file_Mode f' = file_Mode f) \<and>
           (\<forall>n b p. WriteFile n b p \<in> set (trace m') - set (trace m) \<longrightarrow> p = file_Mode f)"
  using assms
  by (auto simp: writeYAML_def os_Stat_def ioutil_WriteFile_def Let_def
      split: sum.splits option.splits)

section \<open>The PKCE verifier and the authorization flow\<close>

lemma set_OAuth2_CachedToken_fields [simp]:
  "trace (set_OAuth2_CachedToken t m) = trace m"
  "httpClient (set_OAuth2_CachedToken t m) = httpClient m"
  "configLocation (set_OAuth2_CachedToken t m) = configLocation m"
  "fs (set_OAuth2_CachedToken t m) = fs m"
  "GateEndpoint (set_OAuth2_CachedToken t m) = GateEndpoint m"
  by (simp_all add: set_OAuth2_CachedToken_def)

lemma grows_Context [simp]: "grows P m (m'\<lparr>Context := c\<rparr>) \<longleftrightarrow> grows P m m'"
  by (simp add: grows_def)

lemma rand_Read_ok:
  "rand_source env n = Inr bs \<Longrightarrow>
   rand_Read env (make_bytes n) = Inr (take n bs @ drop (length bs) (make_bytes n))"
  by (simp add: rand_Read_def make_bytes_def)

lemma rand_Read_length: "length (take n bs @ drop (length bs) (make_bytes n)) = n"
  by (simp add: make_bytes_def)

lemma authenticateOAuth2_cache_grows:
  assumes "\<And>s. P (UiInfo s)" "\<And>n. P (Stat n)" "\<And>n b p. P (WriteFile n b p)"
    "\<And>s. P (UiWarn s)" "\<And>r. P (HttpDo r)"
  shows "grows P m (snd (authenticateOAuth2_cache env t m))"
proof -
  let ?m2 = "set_OAuth2_CachedToken (Some t) (emit (UiInfo ''Caching oauth2 token.'') m)"
  let ?m3 = "snd (writeYAMLConfig env ?m2)"
  let ?m4 = "snd (login env (AccessToken t) ?m3)"
  have a: "grows P m ?m2"
    by (rule grows_to_same [OF grows_emit [of P "UiInfo ''Caching oauth2 token.''" m]])
       (simp_all add: assms)
  have b: "grows P ?m2 ?m3"
    by (rule writeYAMLConfig_grows) (rule assms)+
  have c: "grows P ?m3 ?m4"
    by (rule login_grows) (rule assms)
  have ab: "grows P m ?m3" using a b by (rule grows_trans)
  have abc: "grows P m ?m4" using ab c by (rule grows_trans)
  have "snd (authenticateOAuth2_cache env t m) = ?m3 \<or>
        snd (authenticateOAuth2_cache env t m) = ?m4 \<or>
        snd (authenticateOAuth2_cache env t m) = ?m4\<lparr>Context := Some Background\<rparr>"
    by (auto simp: authenticateOAuth2_cache_def Let_def split: prod.splits outcome.splits)
  then show ?thesis
    using ab abc by (auto intro: grows_to_same)
qed

lemma Authenticate_cache_grows:
  assumes "\<And>s. P (UiInfo s)" "\<And>n. P (Stat n)" "\<And>n b p. P (WriteFile n b p)"
  shows "grows P m (snd (Authenticate_cache env t m))"
proof -
  let ?m2 = "set_OAuth2_CachedToken (Some t) (emit (UiInfo ''Caching oauth2 token.'') m)"
  let ?m3 = "emit (Stat (configLocation ?m2)) ?m2"
  have a: "grows P m ?m2"
    by (rule grows_to_same [OF grows_emit [of P "UiInfo ''Caching oauth2 token.''" m]])
       (simp_all add: assms)
  have b: "grows P m ?m3"
    using a by (rule grows_emit_after) (rule assms)
  have "grows P m (snd (ioutil_WriteFile env n buf p ?m3))" for n buf p
    using b by (rule grows_trans) (rule WriteFile_grows, rule assms)
  then have c: "ioutil_WriteFile env n buf p ?m3 = (r, m') \<Longrightarrow> grows P m m'" for n buf p r m'
    by (metis snd_conv)
  show ?thesis
    using b c
    by (auto simp: Authenticate_cache_def Let_def split: prod.splits sum.splits)
qed

text \<open>
  C1, in the \<open>ApiMeta\<close> version: on the fresh branch of \<open>Authenticate\<close> the verifier is
  five raw random bytes (not the base64url text of 64), the challenge in the authorization
  URL is the verifier itself (no SHA-256, no base64url), and no \<open>code_challenge_method\<close>
  is sent. The exchange does get the same verifier.
\<close>

theorem Authenticate_fresh_trace:
  assumes "Auth (Config m) = Some a" "Enabled a" "OAuth2 a = Some c" "oauth2_IsValid env c"
    "CachedToken c = None" "rand_source env 5 = Inr bs"
  shows "\<exists>code rest.
     trace (snd (Authenticate env m)) =
       trace m @
       [HttpHandle ''/'', GoListenAndServe '':8085'', RandRead 5,
        UiOutput (''Navigate to '' @
          AuthCodeURL env (oauth2_Config_of c) ''state-token''
            [AccessTypeOffline, ApprovalForce,
             SetAuthURLParam ''code_challenge'' (take 5 bs @ drop (length bs) (make_bytes 5))]
          @ '' and authenticate''),
        UiOutput ''Paste authorization code:'', StdinReadString,
        Exchange (oauth2_Config_of c) code
          [SetAuthURLParam ''code_verifier'' (take 5 bs @ drop (length bs) (make_bytes 5))]]
       @ rest"
proof -
  let ?v = "take 5 bs @ drop (length bs) (make_bytes 5)"
  let ?cfg = "oauth2_Config_of c"
  let ?m2 = "emit (RandRead 5) (emit (GoListenAndServe '':8085'') (emit (HttpHandle ''/'') m))"
  let ?m3 = "emit (UiOutput (''Navigate to '' @
          AuthCodeURL env ?cfg ''state-token''
            [AccessTypeOffline, ApprovalForce, SetAuthURLParam ''code_challenge'' ?v]
          @ '' and authenticate'')) ?m2"
  obtain code m4 where p: "Prompt env ?m3 = (code, m4)"
    by (cases "Prompt env ?m3")
  let ?m5 = "emit (Exchange ?cfg code [SetAuthURLParam ''code_verifier'' ?v]) m4"
  have t4: "trace m4 = trace ?m3 @ [UiOutput ''Paste authorization code:'', StdinReadString]"
    using Prompt_trace [of env ?m3] p by simp
  have run: "Authenticate env m =
     (case oauth2_Exchange env ?cfg code [SetAuthURLParam ''code_verifier'' ?v] of
        Inl err \<Rightarrow> (Return (Some err), ?m5)
      | Inr newToken \<Rightarrow> Authenticate_cache env newToken ?m5)"
    using assms p by (simp add: Authenticate_def rand_Read_ok Let_def)
  show ?thesis
  proof (cases "oauth2_Exchange env ?cfg code [SetAuthURLParam ''code_verifier'' ?v]")
    case (Inl err)
    with run t4 show ?thesis by simp
  next
    case (Inr newToken)
    have "grows (\<lambda>e. True) ?m5 (snd (Authenticate_cache env newToken ?m5))"
      by (rule Authenticate_cache_grows) simp_all
    then obtain evs where "trace (snd (Authenticate_cache env newToken ?m5)) = trace ?m5 @ evs"
      by (blast dest: growsD)
    with run Inr t4 show ?thesis by simp
  qed
qed

lemma generateCodeVerifier_ok:
  "rand_source env 64 = Inr bs \<Longrightarrow>
   generateCodeVerifier env m =
     ((base64_RawURLEncoding env (take 64 bs @ drop (length bs) (make_bytes 64)),
       base64_RawURLEncoding env (sha256_Sum256 env
         (base64_RawURLEncoding env (take 64 bs @ drop (length bs) (make_bytes 64)))),
       None),
      emit (RandRead 64) m)"
  by (simp add: generateCodeVerifier_def rand_Read_ok Let_def)

text \<open>
  The \<open>GatewayClient\<close> version does what C1 says: the verifier is the base64url text of
  64 random bytes, the URL carries the base64url text of its SHA-256 with method S256,
  and the exchange gets the same verifier.
\<close>

lemma authenticateOAuth2_fresh_trace:
  fixes env bs
  defines "verifier \<equiv> base64_RawURLEncoding env (take 64 bs @ drop (length bs) (make_bytes 64))"
  assumes "Auth (Config m) = Some a" "Enabled a" "OAuth2 a = Some c" "oauth2_IsValid env c"
    "CachedToken c = None" "rand_source env 64 = Inr bs"
  shows "length (take 64 bs @ drop (length bs) (make_bytes 64)) = 64 \<and>
    (\<exists>code rest.
     trace (snd (authenticateOAuth2 env m)) =
       trace m @
       [HttpHandle ''/'', GoListenAndServe '':8085'', RandRead 64,
        UiOutput (''Navigate to '' @
          AuthCodeURL env (oauth2_Config_of c) ''state-token''
            [AccessTypeOffline, ApprovalForce,
             SetAuthURLParam ''code_challenge_method'' ''S256'',
             SetAuthURLParam ''code_challenge''
               (base64_RawURLEncoding env (sha256_Sum256 env verifier))]
          @ '' and authenticate''),
        UiOutput ''Paste authorization code:'', StdinReadString,
        Exchange (oauth2_Config_of c) code [SetAuthURLParam ''code_verifier'' verifier]]
       @ rest)"
proof
  show "length (take 64 bs @ drop (length bs) (make_bytes 64)) = 64"
    by (rule rand_Read_length)
next
  let ?cfg = "oauth2_Config_of c"
  let ?m2 = "emit (RandRead 64) (emit (GoListenAndServe '':8085'') (emit (HttpHandle ''/'') m))"
  let ?m3 = "emit (UiOutput (''Navigate to '' @
          AuthCodeURL env ?cfg ''state-token''
            [AccessTypeOffline, ApprovalForce,
             SetAuthURLParam ''code_challenge_method'' ''S256'',
             SetAuthURLParam ''code_challenge''
               (base64_RawURLEncoding env (sha256_Sum256 env verifier))]
          @ '' and authenticate'')) ?m2"
  obtain code m4 where p: "prompt env ''Paste authorization code:'' ?m3 = (code, m4)"
    by (cases "prompt env ''Paste authorization code:'' ?m3")
  let ?m5 = "emit (Exchange ?cfg code [SetAuthURLParam ''code_verifier'' verifier]) m4"
  have t4: "trace m4 = trace ?m3 @ [UiOutput ''Paste authorization code:'', StdinReadString]"
    using prompt_trace [of env "''Paste authorization code:''" ?m3] p by simp
  have run: "authenticateOAuth2 env m =
     (case oauth2_Exchange env ?cfg code [SetAuthURLParam ''code_verifier'' verifier] of
        Inl err \<Rightarrow> (Return (Some err), ?m5)
      | Inr newToken \<Rightarrow> authenticateOAuth2_cache env newToken ?m5)"
    using assms(2-) p
    by (simp add: authenticateOAuth2_def generateCodeVerifier_ok Let_def verifier_def [symmetric])
  show "\<exists>code rest.
     trace (snd (authenticateOAuth2 env m)) =
       trace m @
       [HttpHandle ''/'', GoListenAndServe '':8085'', RandRead 64,
        UiOutput (''Navigate to '' @
          AuthCodeURL env (oauth2_Config_of c) ''state-token''
            [AccessTypeOffline, ApprovalForce,
             SetAuthURLParam ''code_challenge_method'' ''S256'',
             SetAuthURLParam ''code_challenge''
               (base64_RawURLEncoding env (sha256_Sum256 env verifier))]
          @ '' and authenticate''),
        UiOutput ''Paste authorization code:'', StdinReadString,
        Exchange (oauth2_Config_of c) code [SetAuthURLParam ''code_verifier'' verifier]]
       @ rest"
  proof (cases "oauth2_Exchange env ?cfg code [SetAuthURLParam ''code_verifier'' verifier]")
    case (Inl err)
    with run t4 show ?thesis by simp
  next
    case (Inr newToken)
    have "grows (\<lambda>e. True) ?m5 (snd (authenticateOAuth2_cache env newToken ?m5))"
      by (rule authenticateOAuth2_cache_grows) simp_all
    then obtain evs where
      "trace (snd (authenticateOAuth2_cache env newToken ?m5)) = trace ?m5 @ evs"
      by (blast dest: growsD)
    with run Inr t4 show ?thesis by simp
  qed
qed

lemma ex_oauth2_st_fields:
  "Auth (Config (ex_oauth2_st t)) = Some (ex_auth\<lparr>OAuth2 := Some (ex_oauth2 t)\<rparr>)"
  "Enabled (ex_auth\<lparr>OAuth2 := Some (ex_oauth2 t)\<rparr>)"
  "OAuth2 (ex_auth\<lparr>OAuth2 := Some (ex_oauth2 t)\<rparr>) = Some (ex_oauth2 t)"
  "oauth2_IsValid ex_env (ex_oauth2 t)"
  "CachedToken (ex_oauth2 t) = t"
  "trace (ex_oauth2_st t) = []"
  by (simp_all add: ex_oauth2_st_def ex_st_def ex_auth_def ex_oauth2_def ex_env_def)

theorem Authenticate_fresh_trace_witness:
  "\<exists>code rest.
     trace (snd (Authenticate ex_env (ex_oauth2_st None))) =
       [HttpHandle ''/'', GoListenAndServe '':8085'', RandRead 5,
        UiOutput (''Navigate to '' @
          AuthCodeURL ex_env (oauth2_Config_of (ex_oauth2 None)) ''state-token''
            [AccessTypeOffline, ApprovalForce, SetAuthURLParam ''code_challenge'' ''rrrrr'']
          @ '' and authenticate''),
        UiOutput ''Paste authorization code:'', StdinReadString,
        Exchange (oauth2_Config_of (ex_oauth2 None)) code
          [SetAuthURLParam ''code_verifier'' ''rrrrr'']]
       @ rest"
proof -
  have r: "rand_source ex_env 5 = Inr ''rrrrr''"
    by (simp add: ex_env_def eval_nat_numeral)
  show ?thesis
    using Authenticate_fresh_trace [OF ex_oauth2_st_fields(1-4) ex_oauth2_st_fields(5) r]
    by (simp add: ex_oauth2_st_fields make_bytes_def)
qed

section \<open>The cached OAuth2 token\<close>

lemma authenticateOAuth2_cached:
  assumes "Auth (Config m) = Some a" "Enabled a" "OAuth2 a = Some c" "CachedToken c = Some tok"
  shows "authenticateOAuth2 env m =
     (if \<not> oauth2_IsValid env c then
        (Return (Some (errors_New ''incorrect OAuth2 auth configuration'')), m)
      else
        (case TokenSource_Token env (oauth2_Config_of c) tok of
           Inl err \<Rightarrow>
             (Return (Some err),
              emit (UiError (''Could not refresh token from source: ''
                      @ fmt_TokenSource env (oauth2_Config_of c) tok))
                (emit (TokenSourceToken (oauth2_Config_of c) tok) m))
         | Inr newToken \<Rightarrow>
             authenticateOAuth2_cache env newToken
               (emit (TokenSourceToken (oauth2_Config_of c) tok) m)))"
  using assms by (simp add: authenticateOAuth2_def Let_def)

lemma Authenticate_cached:
  assumes "Auth (Config m) = Some a" "Enabled a" "OAuth2 a = Some c" "CachedToken c = Some tok"
  shows "Authenticate env m =
     (if \<not> oauth2_IsValid env c then
        (Return (Some (errors_New ''incorrect OAuth2 auth configuration'')), m)
      else
        (case TokenSource_Token env (oauth2_Config_of c) tok of
           Inl err \<Rightarrow>
             (Return (Some err),
              emit (UiError (''Could not refresh token from source: ''
                      @ fmt_TokenSource env (oauth2_Config_of c) tok))
                (emit (TokenSourceToken (oauth2_Config_of c) tok) m))
         | Inr newToken \<Rightarrow>
             Authenticate_cache env newToken
               (emit (TokenSourceToken (oauth2_Config_of c) tok) m)))"
  using assms by (simp add: Authenticate_def Let_def)

lemma quiet_after_token_request:
  assumes "grows (\<lambda>e. \<not> is_authorization_flow e) (emit (TokenSourceToken cfg tok) m) m'"
  shows "grows (\<lambda>e. \<not> is_authorization_flow e) m m' \<and>
         (\<exists>rest. trace m' = trace m @ TokenSourceToken cfg tok # rest)"
proof
  have "grows (\<lambda>e. \<not> is_authorization_flow e) m (emit (TokenSourceToken cfg tok) m)"
    by (rule grows_emit) simp
  then show "grows (\<lambda>e. \<not> is_authorization_flow e) m m'"
    using assms by (rule grows_trans)
  from assms obtain evs where "trace m' = trace (emit (TokenSourceToken cfg tok) m) @ evs"
    by (blast dest: growsD)
  then show "\<exists>rest. trace m' = trace m @ TokenSourceToken cfg tok # rest"
    by simp
qed

text \<open>
  C4: with a cached OAuth2 token in the configuration, whatever its expiry, neither
  version of the handler starts the listener, prints anything for the user, reads the
  terminal or exchanges a code. With a valid section the first thing it does is to ask
  the token source built from the cached token for a token, and when that fails the
  error is what the handler returns.
\<close>

theorem cached_token_skips_authorization_flow:
  assumes "Auth (Config m) = Some a" "Enabled a" "OAuth2 a = Some c" "CachedToken c = Some tok"
  shows "grows (\<lambda>e. \<not> is_authorization_flow e) m (snd (authenticateOAuth2 env m)) \<and>
     grows (\<lambda>e. \<not> is_authorization_flow e) m (snd (Authenticate env m)) \<and>
     (oauth2_IsValid env c \<longrightarrow>
        (\<exists>rest. trace (snd (authenticateOAuth2 env m)) =
            trace m @ TokenSourceToken (oauth2_Config_of c) tok # rest) \<and>
        (\<exists>rest. trace (snd (Authenticate env m)) =
            trace m @ TokenSourceToken (oauth2_Config_of c) tok # rest) \<and>
        (\<forall>err. TokenSource_Token env (oauth2_Config_of c) tok = Inl err \<longrightarrow>
           fst (authenticateOAuth2 env m) = Return (Some err) \<and>
           fst (Authenticate env m) = Return (Some err)))"
proof -
  let ?Q = "\<lambda>e. \<not> is_authorization_flow e"
  let ?m1 = "emit (TokenSourceToken (oauth2_Config_of c) tok) m"
  have new: "grows ?Q ?m1 (snd (authenticateOAuth2_cache env t ?m1))" for t
    by (rule authenticateOAuth2_cache_grows) simp_all
  have old: "grows ?Q ?m1 (snd (Authenticate_cache env t ?m1))" for t
    by (rule Authenticate_cache_grows) simp_all
  have err: "grows ?Q ?m1 (emit (UiError s) ?m1)" for s
    by (rule grows_emit) simp
  show ?thesis
  proof (cases "oauth2_IsValid env c")
    case False
    then show ?thesis
      by (simp add: authenticateOAuth2_cached [OF assms] Authenticate_cached [OF assms])
  next
    case True
    show ?thesis
    proof (cases "TokenSource_Token env (oauth2_Config_of c) tok")
      case (Inl e)
      with True quiet_after_token_request [OF err] show ?thesis
        by (simp add: authenticateOAuth2_cached [OF assms] Authenticate_cached [OF assms])
    next
      case (Inr t)
      with True quiet_after_token_request [OF new [of t]] quiet_after_token_request [OF old [of t]]
      show ?thesis
        by (simp add: authenticateOAuth2_cached [OF assms] Authenticate_cached [OF assms])
    qed
  qed
qed

theorem cached_token_skips_authorization_flow_witness:
  "trace (snd (authenticateOAuth2 ex_env (ex_oauth2_st (Some (ex_token ''stale''))))) =
     [TokenSourceToken (oauth2_Config_of (ex_oauth2 (Some (ex_token ''stale'')))) (ex_token ''stale''),
      UiInfo ''Caching oauth2 token.'', Stat ''/home/u/.spin/config'',
      WriteFile ''/home/u/.spin/config'' ''yaml'' 0x1A4,
      HttpDo \<lparr>Method = ''GET'', URL = ''https://gate/login'',
        Header = [(''Authorization'', ''Bearer refreshed'')], Body = None\<rparr>] \<and>
   grows (\<lambda>e. \<not> is_authorization_flow e) (ex_oauth2_st (Some (ex_token ''stale'')))
     (snd (authenticateOAuth2 ex_env (ex_oauth2_st (Some (ex_token ''stale'')))))"
proof -
  have "grows (\<lambda>e. \<not> is_authorization_flow e) (ex_oauth2_st (Some (ex_token ''stale'')))
     (snd (authenticateOAuth2 ex_env (ex_oauth2_st (Some (ex_token ''stale'')))))"
    using cached_token_skips_authorization_flow
      [OF ex_oauth2_st_fields(1-3) ex_oauth2_st_fields(5), where env = ex_env]
    by simp
  moreover have "trace (snd (authenticateOAuth2 ex_env (ex_oauth2_st (Some (ex_token ''stale''))))) =
     [TokenSourceToken (oauth2_Config_of (ex_oauth2 (Some (ex_token ''stale'')))) (ex_token ''stale''),
      UiInfo ''Caching oauth2 token.'', Stat ''/home/u/.spin/config'',
      WriteFile ''/home/u/.spin/config'' ''yaml'' 0x1A4,
      HttpDo \<lparr>Method = ''GET'', URL = ''https://gate/login'',
        Header = [(''Authorization'', ''Bearer refreshed'')], Body = None\<rparr>]"
    by (simp add: authenticateOAuth2_cached [OF ex_oauth2_st_fields(1-3) ex_oauth2_st_fields(5)]
        ex_oauth2_st_fields)
       (simp add: ex_env_def authenticateOAuth2_cache_def writeYAMLConfig_def writeYAML_def
          os_Stat_def ioutil_WriteFile_def login_cases Let_def ex_oauth2_st_def ex_st_def
          GateEndpoint_def ex_token_def set_OAuth2_CachedToken_def)
  ultimately show ?thesis by simp
qed

lemma writeYAMLConfig_missing_file:
  assumes "yaml_Marshal env (Config m) = Inr buf" "stat_fault env (configLocation m) = None"
    "fs m (configLocation m) = None"
  shows "fst (writeYAMLConfig env m) = Panic"
  using assms by (simp add: writeYAMLConfig_def writeYAML_def os_Stat_def Let_def)

lemma authenticateOAuth2_cache_panics:
  assumes "fst (writeYAMLConfig env
            (set_OAuth2_CachedToken (Some t) (emit (UiInfo ''Caching oauth2 token.'') m))) = Panic"
  shows "fst (authenticateOAuth2_cache env t m) = Panic"
  using assms by (auto simp: authenticateOAuth2_cache_def Let_def split: prod.splits outcome.splits)

text \<open>
  C8, when the configuration file is gone by the time the token is cached: the token
  was refreshed, and the handler does not return at all. The write dereferences the
  missing file information and panics (the defect of C2).
\<close>

theorem authenticateOAuth2_missing_file_panics:
  assumes "Auth (Config m) = Some a" "Enabled a" "OAuth2 a = Some c" "oauth2_IsValid env c"
    "CachedToken c = Some tok"
    "TokenSource_Token env (oauth2_Config_of c) tok = Inr newToken"
    "yaml_Marshal env (Config (set_OAuth2_CachedToken (Some newToken) m)) = Inr buf"
    "stat_fault env (configLocation m) = None"
    "fs m (configLocation m) = None"
  shows "fst (authenticateOAuth2 env m) = Panic"
proof -
  let ?m1 = "emit (TokenSourceToken (oauth2_Config_of c) tok) m"
  let ?m2 = "set_OAuth2_CachedToken (Some newToken) (emit (UiInfo ''Caching oauth2 token.'') ?m1)"
  have cfg: "Config ?m2 = Config (set_OAuth2_CachedToken (Some newToken) m)"
    by (simp add: set_OAuth2_CachedToken_def)
  have "fst (writeYAMLConfig env ?m2) = Panic"
    using assms(7-9) by (intro writeYAMLConfig_missing_file [where buf = buf]) (simp_all add: cfg)
  then have "fst (authenticateOAuth2_cache env newToken ?m1) = Panic"
    by (rule authenticateOAuth2_cache_panics)
  then show ?thesis
    using assms(4,6) by (simp add: authenticateOAuth2_cached [OF assms(1-3,5)])
qed

theorem authenticateOAuth2_missing_file_panics_witness:
  "fst (authenticateOAuth2 ex_env ((ex_oauth2_st (Some (ex_token ''stale'')))\<lparr>fs := Map.empty\<rparr>)) = Panic"
proof -
  let ?m = "(ex_oauth2_st (Some (ex_token ''stale'')))\<lparr>fs := Map.empty\<rparr>"
  have 1: "Auth (Config ?m) = Some (ex_auth\<lparr>OAuth2 := Some (ex_oauth2 (Some (ex_token ''stale'')))\<rparr>)"
    by (simp add: ex_oauth2_st_fields)
  have 6: "TokenSource_Token ex_env (oauth2_Config_of (ex_oauth2 (Some (ex_token ''stale''))))
      (ex_token ''stale'') = Inr (ex_token ''refreshed'')"
    by (simp add: ex_env_def)
  have 7: "yaml_Marshal ex_env (Config (set_OAuth2_CachedToken (Some (ex_token ''refreshed'')) ?m))
      = Inr ''yaml''"
    by (simp add: ex_env_def)
  have 8: "stat_fault ex_env (configLocation ?m) = None"
    by (simp add: ex_env_def)
  have 9: "fs ?m (configLocation ?m) = None"
    by simp
  show ?thesis
    by (rule authenticateOAuth2_missing_file_panics
          [OF 1 ex_oauth2_st_fields(2-5) 6 7 8 9])
qed

text \<open>
  Whenever the write returns, with an error or without one, the handler goes on and
  returns no error.
\<close>

lemma writeYAMLConfig_returns:
  assumes "fs m (configLocation m) \<noteq> None \<or> stat_fault env (configLocation m) \<noteq> None"
  shows "\<exists>r. fst (writeYAMLConfig env m) = Return r"
  using assms
  by (auto simp: writeYAMLConfig_def writeYAML_def os_Stat_def Let_def
      split: sum.splits option.splits prod.splits outcome.splits)

lemma authenticateOAuth2_cache_ignores_write_error:
  assumes "fs m (configLocation m) \<noteq> None \<or> stat_fault env (configLocation m) \<noteq> None"
    and "httpClient m \<noteq> None"
  shows "fst (authenticateOAuth2_cache env t m) = Return None"
proof -
  let ?m2 = "set_OAuth2_CachedToken (Some t) (emit (UiInfo ''Caching oauth2 token.'') m)"
  obtain r where w: "fst (writeYAMLConfig env ?m2) = Return r"
    using writeYAMLConfig_returns [of ?m2 env] assms(1) by auto
  have h: "httpClient (snd (writeYAMLConfig env ?m2)) \<noteq> None"
    using assms(2)
    by (auto simp: writeYAMLConfig_def writeYAML_def ioutil_WriteFile_def Let_def
        split: sum.splits option.splits prod.splits outcome.splits)
  have "\<exists>r'. fst (login env (AccessToken t) (snd (writeYAMLConfig env ?m2))) = Return r'"
    using h by (auto simp: login_cases split: option.splits)
  with w show ?thesis
    by (auto simp: authenticateOAuth2_cache_def Let_def split: prod.splits outcome.splits)
qed

section \<open>Initialising the HTTP client\<close>

lemma set_DefaultTransport_insecure_fields [simp]:
  "trace (set_DefaultTransport_insecure m) = trace m"
  "Config (set_DefaultTransport_insecure m) = Config m"
  "Context (set_DefaultTransport_insecure m) = Context m"
  "ignoreCertErrors (set_DefaultTransport_insecure m) = ignoreCertErrors m"
  "fs (set_DefaultTransport_insecure m) = fs m"
  by (simp_all add: set_DefaultTransport_insecure_def)

lemma x509_rejected:
  "path_pair x = inline_pair x \<Longrightarrow>
   initializeClient_x509 env x client m = (Return (None, Some x509_error), m)"
  by (simp add: initializeClient_x509_def X509_IsValid_def)

text \<open>
  C5: with X509 enabled and not exactly one of the two credential pairs populated (both,
  or neither), both versions of the client initialisation return the configuration
  error and do nothing else, and \<open>NewGateClient\<close> returns that error having only
  reported it: no network call. (\<open>X509.IsValid\<close> is modelled from the spec; the code's
  own default branch rejects the case of neither pair.)
\<close>

theorem x509_needs_exactly_one_source:
  assumes "Auth (Config m) = Some a" "Enabled a" "X509 a = Some x"
    and "path_pair x = inline_pair x"
  shows "fst (initializeClient env m) = Return (None, Some x509_error) \<and>
     trace (snd (initializeClient env m)) = trace m \<and>
     fst (InitializeClient env m) = Return (None, Some x509_error) \<and>
     trace (snd (InitializeClient env m)) = trace m \<and>
     fst (NewGateClient_handlers env m) = Return (Some x509_error) \<and>
     trace (snd (NewGateClient_handlers env m)) =
       trace m @ [UiError ''Could not initialize http client, failing.''] \<and>
     grows (\<lambda>e. \<not> is_network e) m (snd (NewGateClient_handlers env m))"
proof -
  have new: "initializeClient env m =
      (Return (None, Some x509_error), set_DefaultTransport_insecure m)"
    using assms by (simp add: initializeClient_def Let_def x509_rejected)
  have old: "InitializeClient env m =
      (Return (None, Some x509_error), set_DefaultTransport_insecure m)"
    using assms by (simp add: InitializeClient_def Let_def x509_rejected)
  have run: "NewGateClient_handlers env m =
      (Return (Some x509_error),
       emit (UiError ''Could not initialize http client, failing.'')
         (set_DefaultTransport_insecure m))"
    by (simp add: NewGateClient_handlers_def new)
  have "grows (\<lambda>e. \<not> is_network e) m (snd (NewGateClient_handlers env m))"
    by (rule growsI [where evs = "[UiError ''Could not initialize http client, failing.'']"])
       (simp_all add: run)
  then show ?thesis
    by (simp add: new old run)
qed

theorem x509_needs_exactly_one_source_witness:
  "fst (NewGateClient_handlers ex_env
          (ex_x509_st \<lparr>CertPath = ''c.pem'', KeyPath = ''k.pem'', Cert = ''CERT'', Key = ''KEY''\<rparr>))
     = Return (Some x509_error) \<and>
   fst (NewGateClient_handlers ex_env
          (ex_x509_st \<lparr>CertPath = [], KeyPath = [], Cert = [], Key = []\<rparr>))
     = Return (Some x509_error) \<and>
   trace (snd (NewGateClient_handlers ex_env
          (ex_x509_st \<lparr>CertPath = [], KeyPath = ''k.pem'', Cert = ''CERT'', Key = []\<rparr>)))
     = [UiError ''Could not initialize http client, failing.'']"
proof -
  have a: "Auth (Config (ex_x509_st x)) = Some (ex_auth\<lparr>X509 := Some x\<rparr>)" for x
    by (simp add: ex_x509_st_def ex_st_def)
  have b: "Enabled (ex_auth\<lparr>X509 := Some x\<rparr>)" for x
    by (simp add: ex_auth_def)
  have c: "X509 (ex_auth\<lparr>X509 := Some x\<rparr>) = Some x" for x
    by simp
  have t: "trace (ex_x509_st x) = []" for x
    by (simp add: ex_x509_st_def ex_st_def)
  show ?thesis
    using x509_needs_exactly_one_source [OF a b c, where env = ex_env and
        x = "\<lparr>CertPath = ''c.pem'', KeyPath = ''k.pem'', Cert = ''CERT'', Key = ''KEY''\<rparr>"]
      x509_needs_exactly_one_source [OF a b c, where env = ex_env and
        x = "\<lparr>CertPath = [], KeyPath = [], Cert = [], Key = []\<rparr>"]
      x509_needs_exactly_one_source [OF a b c, where env = ex_env and
        x = "\<lparr>CertPath = [], KeyPath = ''k.pem'', Cert = ''CERT'', Key = []\<rparr>"]
    by (simp add: path_pair_def inline_pair_def t)
qed

subsection \<open>The insecure flag\<close>

lemma ReadFile_state: "ioutil_ReadFile env m n = (r, m') \<Longrightarrow> m' = emit (ReadFile n) m"
  by (auto simp: ioutil_ReadFile_def Let_def split: option.splits)

lemma LoadX509KeyPair_DefaultTransport:
  "tls_LoadX509KeyPair env c k m = (r, m') \<Longrightarrow> DefaultTransport_TLS m' = DefaultTransport_TLS m"
  by (auto simp: tls_LoadX509KeyPair_def dest!: ReadFile_state split: prod.splits sum.splits)

lemma initializeClient_x509_DefaultTransport [simp]:
  "DefaultTransport_TLS (snd (initializeClient_x509 env x client m)) = DefaultTransport_TLS m"
  by (auto simp: initializeClient_x509_def Let_def
      dest!: ReadFile_state LoadX509KeyPair_DefaultTransport
      split: sum.splits prod.splits outcome.splits)

lemma DefaultTransport_insecure:
  "ignoreCertErrors m \<Longrightarrow>
   DefaultTransport_TLS (set_DefaultTransport_insecure m) =
     Some (tls_Config_zero\<lparr>InsecureSkipVerify := True\<rparr>)"
  by (simp add: set_DefaultTransport_insecure_def)

lemma initializeClient_DefaultTransport:
  "DefaultTransport_TLS (snd (initializeClient env m)) =
   DefaultTransport_TLS (set_DefaultTransport_insecure m)"
  by (simp add: initializeClient_def authenticateIAP_def Let_def
      split: option.splits prod.splits)

lemma InitializeClient_DefaultTransport:
  "DefaultTransport_TLS (snd (InitializeClient env m)) =
   DefaultTransport_TLS (set_DefaultTransport_insecure m)"
  by (simp add: InitializeClient_def Let_def split: option.splits prod.splits)

lemma initializeClient_no_transport:
  "\<not> x509_on m \<Longrightarrow> fst (initializeClient env m) = Return (Some c, e) \<Longrightarrow> Transport c = None"
  by (auto simp: initializeClient_def authenticateIAP_def x509_on_def Let_def
      split: option.splits prod.splits if_splits)

lemma InitializeClient_no_transport:
  "\<not> x509_on m \<Longrightarrow> fst (InitializeClient env m) = Return (Some c, e) \<Longrightarrow> Transport c = None"
  by (auto simp: InitializeClient_def x509_on_def Let_def
      split: option.splits prod.splits if_splits)

text \<open>
  C10: with the insecure flag, both versions of the client initialisation set the TLS
  configuration of the process-wide default transport to skip verification. Without
  X509 the client they return has no transport of its own, and every client with no
  transport of its own, returned here or not, then works without verification.
\<close>

theorem insecure_flag_is_process_wide:
  assumes "ignoreCertErrors m"
  shows "DefaultTransport_TLS (snd (initializeClient env m)) =
       Some (tls_Config_zero\<lparr>InsecureSkipVerify := True\<rparr>) \<and>
     DefaultTransport_TLS (snd (InitializeClient env m)) =
       Some (tls_Config_zero\<lparr>InsecureSkipVerify := True\<rparr>) \<and>
     (\<not> x509_on m \<longrightarrow>
        (\<forall>c e. fst (initializeClient env m) = Return (Some c, e) \<longrightarrow> Transport c = None) \<and>
        (\<forall>c e. fst (InitializeClient env m) = Return (Some c, e) \<longrightarrow> Transport c = None)) \<and>
     (\<forall>c. Transport c = None \<longrightarrow>
        client_tls (snd (initializeClient env m)) c =
          Some (tls_Config_zero\<lparr>InsecureSkipVerify := True\<rparr>) \<and>
        client_tls (snd (InitializeClient env m)) c =
          Some (tls_Config_zero\<lparr>InsecureSkipVerify := True\<rparr>))"
  using assms
  by (auto simp: initializeClient_DefaultTransport InitializeClient_DefaultTransport
      DefaultTransport_insecure client_tls_def
      dest: initializeClient_no_transport InitializeClient_no_transport)

theorem insecure_flag_is_process_wide_witness:
  "ignoreCertErrors ex_basic_st \<and> \<not> x509_on ex_basic_st \<and>
   fst (initializeClient ex_env ex_basic_st) = Return (Some \<lparr>Jar = True, Transport = None\<rparr>, None) \<and>
   client_tls (snd (initializeClient ex_env ex_basic_st)) \<lparr>Jar = False, Transport = None\<rparr> =
     Some \<lparr>MinVersion = 0, PreferServerCipherSuites = False, Certificates = [],
            InsecureSkipVerify = True\<rparr>"
proof -
  have i: "ignoreCertErrors ex_basic_st"
    by (simp add: ex_basic_st_def)
  have "client_tls (snd (initializeClient ex_env ex_basic_st)) \<lparr>Jar = False, Transport = None\<rparr> =
     Some (tls_Config_zero\<lparr>InsecureSkipVerify := True\<rparr>)"
    using insecure_flag_is_process_wide [OF i, of ex_env] by simp
  moreover have "fst (initializeClient ex_env ex_basic_st) =
      Return (Some \<lparr>Jar = True, Transport = None\<rparr>, None)"
    by (simp add: initializeClient_def ex_basic_st_def ex_st_def ex_auth_def Basic_IsValid_def Let_def)
  moreover have "\<not> x509_on ex_basic_st"
    by (simp add: x509_on_def ex_basic_st_def ex_st_def ex_auth_def)
  ultimately show ?thesis
    using i by (simp add: tls_Config_zero_def)
qed

section \<open>LDAP form login\<close>

lemma read_line_eq: "read_line m = (next_line (stdin m), m\<lparr>stdin := tl (stdin m)\<rparr>)"
  by (cases "stdin m") (simp_all add: read_line_def next_line_def)

lemma prompt_eq:
  "prompt env msg m =
     (strings_TrimSpace env (next_line (stdin m)),
      (emit StdinReadString (emit (UiOutput msg) m))\<lparr>stdin := tl (stdin m)\<rparr>)"
  by (simp add: prompt_def read_line_eq Let_def)

lemma securePrompt_eq:
  "securePrompt env msg m =
     (strings_TrimSpace env (next_line (stdin m)),
      (emit TerminalReadPassword (emit (UiOutput msg) m))\<lparr>stdin := tl (stdin m)\<rparr>)"
  by (simp add: securePrompt_def read_line_eq Let_def)

lemma set_Ldap_fields [simp]:
  "trace (set_Ldap_Username u m) = trace m"
  "httpClient (set_Ldap_Username u m) = httpClient m"
  "stdin (set_Ldap_Username u m) = stdin m"
  "GateEndpoint (set_Ldap_Username u m) = GateEndpoint m"
  "trace (set_Ldap_Password p m) = trace m"
  "httpClient (set_Ldap_Password p m) = httpClient m"
  "stdin (set_Ldap_Password p m) = stdin m"
  "GateEndpoint (set_Ldap_Password p m) = GateEndpoint m"
  by (simp_all add: set_Ldap_Username_def set_Ldap_Password_def)

lemma ldap_form:
  "Values_Add (Values_Add [] ''username'' u) ''password'' p = [(''username'', [u]), (''password'', [p])]"
  by simp

text \<open>
  C6: with LDAP enabled the handler asks for the user name only when the configuration
  has none, and for the password, read without echo, only when the configuration has
  none. Then, when both values are there (and the request can be built), it sends one
  request: a POST to the endpoint's \<open>/login\<close> with the form content type, whose body is
  the encoding of the form with exactly the fields \<open>username\<close> and \<open>password\<close> and those
  values. Nothing else is added to the trace.
\<close>

theorem ldap_prompts_then_posts_form:
  assumes "Auth (Config m) = Some a" "Enabled a" "Ldap a = Some l"
  shows "trace (snd (authenticateLdap env m)) =
     trace m @ ldap_prompts l @
     (if ldap_username env m l \<noteq> [] \<and> ldap_password env m l \<noteq> [] \<and>
         url_Parse_error env (GateEndpoint m @ ''/login'') = None \<and> httpClient m \<noteq> None
      then [HttpDo (ldap_login_request env m (ldap_username env m l) (ldap_password env m l))]
      else [])"
proof (cases "ldap_Username l = []"; cases "ldap_Password l = []")
  assume "ldap_Username l = []" "ldap_Password l = []"
  with assms show ?thesis
    by (simp add: authenticateLdap_def prompt_eq securePrompt_eq ldap_prompts_def
        ldap_username_def ldap_password_def ldap_login_request_def Ldap_IsValid_def
        http_NewRequest_def Header_Set_def Let_def
        split: option.splits sum.splits)
next
  assume "ldap_Username l = []" "ldap_Password l \<noteq> []"
  with assms show ?thesis
    by (simp add: authenticateLdap_def prompt_eq securePrompt_eq ldap_prompts_def
        ldap_username_def ldap_password_def ldap_login_request_def Ldap_IsValid_def
        http_NewRequest_def Header_Set_def Let_def
        split: option.splits sum.splits)
next
  assume "ldap_Username l \<noteq> []" "ldap_Password l = []"
  with assms show ?thesis
    by (simp add: authenticateLdap_def prompt_eq securePrompt_eq ldap_prompts_def
        ldap_username_def ldap_password_def ldap_login_request_def Ldap_IsValid_def
        http_NewRequest_def Header_Set_def Let_def
        split: option.splits sum.splits)
next
  assume "ldap_Username l \<noteq> []" "ldap_Password l \<noteq> []"
  with assms show ?thesis
    by (simp add: authenticateLdap_def prompt_eq securePrompt_eq ldap_prompts_def
        ldap_username_def ldap_password_def ldap_login_request_def Ldap_IsValid_def
        http_NewRequest_def Header_Set_def Let_def
        split: option.splits sum.splits)
qed

theorem ldap_prompts_then_posts_form_witness:
  "trace (snd (authenticateLdap ex_env (ex_ldap_st \<lparr>ldap_Username = ''alice'', ldap_Password = []\<rparr>))) =
     [UiOutput ''Password:'', TerminalReadPassword,
      HttpDo \<lparr>Method = ''POST'', URL = ''https://gate/login'',
        Header = [(''Content-Type'', ''application/x-www-form-urlencoded'')],
        Body = Some (url_Values_Encode ex_env [(''username'', [''alice'']), (''password'', [''typed''])])\<rparr>]"
proof -
  have a: "Auth (Config (ex_ldap_st l)) = Some (ex_auth\<lparr>Ldap := Some l\<rparr>)" for l
    by (simp add: ex_ldap_st_def ex_st_def)
  have b: "Enabled (ex_auth\<lparr>Ldap := Some l\<rparr>)" for l
    by (simp add: ex_auth_def)
  have c: "Ldap (ex_auth\<lparr>Ldap := Some l\<rparr>) = Some l" for l
    by simp
  have e: "GateEndpoint (ex_ldap_st l) = ''https://gate''" for l
    by (simp add: GateEndpoint_def ex_ldap_st_def ex_st_def)
  show ?thesis
    using ldap_prompts_then_posts_form [OF a b c, of ex_env "\<lparr>ldap_Username = ''alice'', ldap_Password = []\<rparr>"]
    by (simp add: ldap_prompts_def ldap_username_def ldap_password_def ldap_login_request_def
        next_line_def e)
       (simp add: ex_ldap_st_def ex_st_def ex_env_def)
qed

section \<open>Google service account\<close>

lemma set_gsa_CachedToken_fields [simp]:
  "trace (set_gsa_CachedToken t m) = trace m"
  "httpClient (set_gsa_CachedToken t m) = httpClient m"
  "configLocation (set_gsa_CachedToken t m) = configLocation m"
  "fs (set_gsa_CachedToken t m) = fs m"
  "GateEndpoint (set_gsa_CachedToken t m) = GateEndpoint m"
  by (simp_all add: set_gsa_CachedToken_def)

lemma set_gsa_CachedToken_twice [simp]:
  "Config (set_gsa_CachedToken t (set_gsa_CachedToken t' m)) = Config (set_gsa_CachedToken t m)"
  by (cases "Auth (Config m)")
     (simp_all add: set_gsa_CachedToken_def option.map_comp comp_def)

lemma set_gsa_CachedToken_emit [simp]:
  "Config (set_gsa_CachedToken t (emit e m)) = Config (set_gsa_CachedToken t m)"
  by (simp add: set_gsa_CachedToken_def)

lemma login_ok:
  "login_possible env m \<Longrightarrow>
   login env tok m = (Return None, emit (HttpDo (login_request m tok)) m)"
  by (auto simp: login_cases login_possible_def login_request_def)

lemma gsa_enabled_run:
  assumes "Auth (Config m) = Some a" "GoogleServiceAccount a = Some g" "gsa_Enabled g"
  shows "authenticateGoogleServiceAccount env m =
     (case gsa_CachedToken g of
        Some t \<Rightarrow> if token_Valid env t then login env (AccessToken t) m
                  else authenticateGoogleServiceAccount_fetch env g m
      | None \<Rightarrow> authenticateGoogleServiceAccount_fetch env g m)"
  using assms by (simp add: authenticateGoogleServiceAccount_def gsa_IsEnabled_def)

lemma writeYAMLConfig_ok:
  assumes "yaml_Marshal env (Config m) = Inr buf" "write_possible env m"
    "fs m (configLocation m) = Some f"
  shows "writeYAMLConfig env m =
     (Return None,
      (emit (WriteFile (configLocation m) buf (file_Mode f)) (emit (Stat (configLocation m)) m))
        \<lparr>fs := (fs m)(configLocation m \<mapsto> f\<lparr>content := buf\<rparr>)\<rparr>)"
  using assms
  by (simp add: writeYAMLConfig_def writeYAML_def os_Stat_def ioutil_WriteFile_def
      write_possible_def Let_def)

section \<open>The state after each handler\<close>

subsection \<open>What each step leaves alone\<close>

lemma login_frame [simp]:
  "Config (snd (login env tok m)) = Config m"
  "Context (snd (login env tok m)) = Context m"
  "httpClient (snd (login env tok m)) = httpClient m"
  by (simp_all add: login_cases split: option.splits)

lemma WriteFile_frame:
  "ioutil_WriteFile env n b p m = (r, m') \<Longrightarrow>
   Config m' = Config m \<and> Context m' = Context m \<and> httpClient m' = httpClient m"
  by (auto simp: ioutil_WriteFile_def Let_def split: option.splits)

lemma writeYAML_frame:
  "writeYAML env v dest mode m = (r, m') \<Longrightarrow>
   Config m' = Config m \<and> Context m' = Context m \<and> httpClient m' = httpClient m"
  by (auto simp: writeYAML_def Let_def dest!: WriteFile_frame
      split: sum.splits prod.splits if_splits)

lemma writeYAMLConfig_frame:
  "writeYAMLConfig env m = (r, m') \<Longrightarrow>
   Config m' = Config m \<and> Context m' = Context m \<and> httpClient m' = httpClient m"
  by (auto simp: writeYAMLConfig_def dest!: writeYAML_frame
      split: prod.splits outcome.splits option.splits)

lemma writeYAMLConfig_frame_snd [simp]:
  "Config (snd (writeYAMLConfig env m)) = Config m"
  "Context (snd (writeYAMLConfig env m)) = Context m"
  "httpClient (snd (writeYAMLConfig env m)) = httpClient m"
  using writeYAMLConfig_frame [of env m "fst (writeYAMLConfig env m)" "snd (writeYAMLConfig env m)"]
  by simp_all

subsection \<open>The context after each handler\<close>

lemma set_OAuth2_CachedToken_on [simp]:
  "ldap_on (set_OAuth2_CachedToken t m) = ldap_on m"
  "gsa_on (set_OAuth2_CachedToken t m) = gsa_on m"
  "gsa_cached_valid env (set_OAuth2_CachedToken t m) = gsa_cached_valid env m"
  "Context (set_OAuth2_CachedToken t m) = Context m"
  by (cases "Auth (Config m)";
      simp add: set_OAuth2_CachedToken_def ldap_on_def gsa_on_def gsa_cached_valid_def)+

lemma set_gsa_CachedToken_on [simp]:
  "ldap_on (set_gsa_CachedToken t m) = ldap_on m"
  "Context (set_gsa_CachedToken t m) = Context m"
  by (cases "Auth (Config m)"; simp add: set_gsa_CachedToken_def ldap_on_def)+

lemma on_cong:
  "Config m' = Config m \<Longrightarrow> ldap_on m' = ldap_on m"
  "Config m' = Config m \<Longrightarrow> gsa_on m' = gsa_on m"
  "Config m' = Config m \<Longrightarrow> oauth2_on m' = oauth2_on m"
  "Config m' = Config m \<Longrightarrow> gsa_cached_valid env m' = gsa_cached_valid env m"
  by (simp_all add: ldap_on_def gsa_on_def oauth2_on_def gsa_cached_valid_def)

lemma authenticateOAuth2_cache_after:
  assumes "fst (authenticateOAuth2_cache env t m) = Return r"
  shows "Context (snd (authenticateOAuth2_cache env t m)) = Some Background \<and>
     Config (snd (authenticateOAuth2_cache env t m)) = Config (set_OAuth2_CachedToken (Some t) m)"
proof -
  let ?m2 = "set_OAuth2_CachedToken (Some t) (emit (UiInfo ''Caching oauth2 token.'') m)"
  let ?m3 = "snd (writeYAMLConfig env ?m2)"
  let ?m4 = "snd (login env (AccessToken t) ?m3)"
  have "snd (authenticateOAuth2_cache env t m) = ?m4\<lparr>Context := Some Background\<rparr>"
    using assms
    by (auto simp: authenticateOAuth2_cache_def Let_def split: prod.splits outcome.splits)
  moreover have "Config ?m2 = Config (set_OAuth2_CachedToken (Some t) m)"
    by (simp add: set_OAuth2_CachedToken_def)
  ultimately show ?thesis by simp
qed

lemma on_emit [simp]:
  "ldap_on (emit e m) = ldap_on m"
  "gsa_on (emit e m) = gsa_on m"
  "oauth2_on (emit e m) = oauth2_on m"
  "gsa_cached_valid env (emit e m) = gsa_cached_valid env m"
  by (simp_all add: ldap_on_def gsa_on_def oauth2_on_def gsa_cached_valid_def)

lemma on_stdin [simp]:
  "ldap_on (m\<lparr>stdin := x\<rparr>) = ldap_on m"
  "gsa_on (m\<lparr>stdin := x\<rparr>) = gsa_on m"
  "gsa_cached_valid env (m\<lparr>stdin := x\<rparr>) = gsa_cached_valid env m"
  by (simp_all add: ldap_on_def gsa_on_def gsa_cached_valid_def)

lemma authenticateOAuth2_cache_on:
  assumes "fst (authenticateOAuth2_cache env t m) = Return r"
  shows "Context (snd (authenticateOAuth2_cache env t m)) = Some Background"
    "ldap_on (snd (authenticateOAuth2_cache env t m)) = ldap_on m"
    "gsa_on (snd (authenticateOAuth2_cache env t m)) = gsa_on m"
    "gsa_cached_valid env (snd (authenticateOAuth2_cache env t m)) = gsa_cached_valid env m"
proof -
  have c: "Config (snd (authenticateOAuth2_cache env t m)) =
      Config (set_OAuth2_CachedToken (Some t) m)"
    using authenticateOAuth2_cache_after [OF assms] by simp
  show "Context (snd (authenticateOAuth2_cache env t m)) = Some Background"
    using authenticateOAuth2_cache_after [OF assms] by simp
  show "ldap_on (snd (authenticateOAuth2_cache env t m)) = ldap_on m"
    using on_cong(1) [OF c] by simp
  show "gsa_on (snd (authenticateOAuth2_cache env t m)) = gsa_on m"
    using on_cong(2) [OF c] by simp
  show "gsa_cached_valid env (snd (authenticateOAuth2_cache env t m)) = gsa_cached_valid env m"
    using on_cong(4) [OF c, of env] by simp
qed

lemma authenticateOAuth2_after:
  assumes "fst (authenticateOAuth2 env m) = Return None"
  shows "Context (snd (authenticateOAuth2 env m)) =
       (if oauth2_on m then Some Background else Context m) \<and>
     ldap_on (snd (authenticateOAuth2 env m)) = ldap_on m \<and>
     gsa_on (snd (authenticateOAuth2 env m)) = gsa_on m \<and>
     gsa_cached_valid env (snd (authenticateOAuth2 env m)) = gsa_cached_valid env m"
proof (cases "oauth2_on m")
  case False
  then have "authenticateOAuth2 env m = (Return None, m)"
    by (auto simp: authenticateOAuth2_def oauth2_on_def split: option.splits)
  with False show ?thesis by simp
next
  case True
  then obtain a c where a: "Auth (Config m) = Some a" "Enabled a" "OAuth2 a = Some c"
    by (auto simp: oauth2_on_def split: option.splits)
  have v: "oauth2_IsValid env c"
    using assms a by (auto simp: authenticateOAuth2_def errors_New_def split: if_splits)
  show ?thesis
  proof (cases "CachedToken c")
    case (Some tok)
    let ?m1 = "emit (TokenSourceToken (oauth2_Config_of c) tok) m"
    obtain t where e: "authenticateOAuth2 env m = authenticateOAuth2_cache env t ?m1"
      using assms v
      by (cases "TokenSource_Token env (oauth2_Config_of c) tok")
         (simp_all add: authenticateOAuth2_cached [OF a Some])
    show ?thesis
      using assms True authenticateOAuth2_cache_on [of env t ?m1 None]
      by (simp add: e)
  next
    case None
    let ?m1 = "emit (GoListenAndServe '':8085'') (emit (HttpHandle ''/'') m)"
    obtain bs where r: "rand_Read env (make_bytes 64) = Inr bs"
      using assms a v None
      by (cases "rand_Read env (make_bytes 64)")
         (simp_all add: authenticateOAuth2_def generateCodeVerifier_def Let_def)
    have "\<exists>t e1 e2 e3 x. authenticateOAuth2 env m =
        authenticateOAuth2_cache env t
          (emit e1 ((emit StdinReadString (emit e2 (emit e3 (emit (RandRead 64) ?m1))))\<lparr>stdin := x\<rparr>))"
      using assms a v None r
      by (simp add: authenticateOAuth2_def generateCodeVerifier_def prompt_eq Let_def
          split: sum.splits) blast
    then obtain t e1 e2 e3 x where e: "authenticateOAuth2 env m =
        authenticateOAuth2_cache env t
          (emit e1 ((emit StdinReadString (emit e2 (emit e3 (emit (RandRead 64) ?m1))))\<lparr>stdin := x\<rparr>))"
      by blast
    let ?m5 = "emit e1 ((emit StdinReadString (emit e2 (emit e3 (emit (RandRead 64) ?m1))))\<lparr>stdin := x\<rparr>)"
    show ?thesis
      using assms True authenticateOAuth2_cache_on [of env t ?m5 None]
      by (simp add: e)
  qed
qed

lemma login_on: "ldap_on (snd (login env tok m)) = ldap_on m"
  by (rule on_cong) simp

lemma authenticateGoogleServiceAccount_token_after:
  assumes "fst (authenticateGoogleServiceAccount_token env source m) = Return None"
  shows "Context (snd (authenticateGoogleServiceAccount_token env source m)) = Some Background \<and>
     ldap_on (snd (authenticateGoogleServiceAccount_token env source m)) = ldap_on m"
proof -
  obtain token where t: "source_Token env source = Inr token"
    using assms
    by (cases "source_Token env source")
       (simp_all add: authenticateGoogleServiceAccount_token_def Let_def)
  let ?m3 = "emit (SourceToken source) m"
  let ?m4 = "snd (login env (AccessToken token) ?m3)"
  let ?m5 = "(set_gsa_CachedToken (Some token) ?m4)\<lparr>Context := Some Background\<rparr>"
  have "snd (authenticateGoogleServiceAccount_token env source m) = snd (writeYAMLConfig env ?m5)"
    using assms t
    by (auto simp: authenticateGoogleServiceAccount_token_def Let_def
        split: prod.splits outcome.splits option.splits)
  moreover have "ldap_on ?m5 = ldap_on m"
  proof -
    have "ldap_on ?m5 = ldap_on (set_gsa_CachedToken (Some token) ?m4)"
      by (simp add: ldap_on_def)
    also have "\<dots> = ldap_on ?m4" by simp
    also have "\<dots> = ldap_on m" by (rule on_cong) simp
    finally show ?thesis .
  qed
  moreover have "ldap_on (snd (writeYAMLConfig env ?m5)) = ldap_on ?m5"
    by (rule on_cong) simp
  ultimately show ?thesis by simp
qed

lemma ReadFile_frame:
  "ioutil_ReadFile env m n = (r, m') \<Longrightarrow> Config m' = Config m \<and> Context m' = Context m"
  by (auto dest!: ReadFile_state)

lemma authenticateGoogleServiceAccount_fetch_after:
  assumes "fst (authenticateGoogleServiceAccount_fetch env g m) = Return None"
  shows "Context (snd (authenticateGoogleServiceAccount_fetch env g m)) = Some Background \<and>
     ldap_on (snd (authenticateGoogleServiceAccount_fetch env g m)) = ldap_on m"
proof -
  have "\<exists>source m2. ldap_on m2 = ldap_on m \<and>
          authenticateGoogleServiceAccount_fetch env g m =
            authenticateGoogleServiceAccount_token env source m2"
  proof (cases "File g = []")
    case True
    let ?m2 = "emit (GoogleDefaultTokenSource [''profile'', ''email'']) (set_gsa_CachedToken None m)"
    obtain source where "google_DefaultTokenSource env [''profile'', ''email''] = Inr source"
      using assms True
      by (cases "google_DefaultTokenSource env [''profile'', ''email'']")
         (simp_all add: authenticateGoogleServiceAccount_fetch_def Let_def)
    with True have "authenticateGoogleServiceAccount_fetch env g m =
        authenticateGoogleServiceAccount_token env source ?m2"
      by (simp add: authenticateGoogleServiceAccount_fetch_def Let_def)
    moreover have "ldap_on ?m2 = ldap_on m"
      by simp
    ultimately show ?thesis by blast
  next
    case False
    let ?m1 = "emit (ReadFile (File g)) (set_gsa_CachedToken None m)"
    obtain r where rd: "ioutil_ReadFile env (set_gsa_CachedToken None m) (File g) = (r, ?m1)"
      by (cases "ioutil_ReadFile env (set_gsa_CachedToken None m) (File g)")
         (auto dest: ReadFile_state)
    obtain json where j: "r = Inr json"
      using assms False rd
      by (cases r) (simp_all add: authenticateGoogleServiceAccount_fetch_def Let_def)
    let ?m2 = "emit (GoogleJWTAccessTokenSourceFromJSON json
                 ''https://accounts.google.com/o/oauth2/v2/auth'') ?m1"
    obtain source where "google_JWTAccessTokenSourceFromJSON env json
          ''https://accounts.google.com/o/oauth2/v2/auth'' = Inr source"
      using assms False rd j
      by (cases "google_JWTAccessTokenSourceFromJSON env json
          ''https://accounts.google.com/o/oauth2/v2/auth''")
         (simp_all add: authenticateGoogleServiceAccount_fetch_def Let_def)
    with False rd j have "authenticateGoogleServiceAccount_fetch env g m =
        authenticateGoogleServiceAccount_token env source ?m2"
      by (simp add: authenticateGoogleServiceAccount_fetch_def Let_def)
    moreover have "ldap_on ?m2 = ldap_on m"
      by simp
    ultimately show ?thesis by blast
  qed
  then obtain source m2 where o: "ldap_on m2 = ldap_on m"
    and e: "authenticateGoogleServiceAccount_fetch env g m =
            authenticateGoogleServiceAccount_token env source m2"
    by blast
  show ?thesis
    using authenticateGoogleServiceAccount_token_after [of env source m2] assms o
    by (simp add: e)
qed

lemma authenticateGoogleServiceAccount_after:
  assumes "fst (authenticateGoogleServiceAccount env m) = Return None"
  shows "Context (snd (authenticateGoogleServiceAccount env m)) =
       (if gsa_on m \<and> \<not> gsa_cached_valid env m then Some Background else Context m) \<and>
     ldap_on (snd (authenticateGoogleServiceAccount env m)) = ldap_on m"
proof (cases "gsa_on m")
  case False
  then have "authenticateGoogleServiceAccount env m = (Return None, m)"
    by (auto simp: authenticateGoogleServiceAccount_def gsa_on_def split: option.splits)
  with False show ?thesis by simp
next
  case True
  then obtain a g where a: "Auth (Config m) = Some a" "GoogleServiceAccount a = Some g" "gsa_Enabled g"
    by (auto simp: gsa_on_def gsa_IsEnabled_def split: option.splits)
  have v: "gsa_cached_valid env m = cached_valid env g"
    using a by (simp add: gsa_cached_valid_def)
  show ?thesis
  proof (cases "cached_valid env g")
    case True
    then obtain t where "gsa_CachedToken g = Some t" "token_Valid env t"
      by (auto simp: cached_valid_def split: option.splits)
    then have "authenticateGoogleServiceAccount env m = login env (AccessToken t) m"
      by (simp add: gsa_enabled_run [OF a])
    with True v show ?thesis
      by (simp add: login_on)
  next
    case False
    then have "authenticateGoogleServiceAccount env m = authenticateGoogleServiceAccount_fetch env g m"
      by (simp add: gsa_enabled_run [OF a] cached_valid_def split: option.splits)
    with False v \<open>gsa_on m\<close> assms authenticateGoogleServiceAccount_fetch_after [of env g m]
    show ?thesis by simp
  qed
qed

lemma authenticateLdap_after:
  assumes "fst (authenticateLdap env m) = Return None"
  shows "Context (snd (authenticateLdap env m)) =
       (if ldap_on m then Some Background else Context m)"
proof (cases "ldap_on m")
  case False
  then have "authenticateLdap env m = (Return None, m)"
    by (auto simp: authenticateLdap_def ldap_on_def split: option.splits)
  with False show ?thesis by simp
next
  case True
  then obtain a l where a: "Auth (Config m) = Some a" "Enabled a" "Ldap a = Some l"
    by (auto simp: ldap_on_def split: option.splits)
  have "fst (authenticateLdap env m) = Return None \<longrightarrow>
        Context (snd (authenticateLdap env m)) = Some Background"
    using a
    by (cases "ldap_Username l = []"; cases "ldap_Password l = []")
       (simp_all add: authenticateLdap_def prompt_eq securePrompt_eq Let_def errors_New_def
          split: option.splits sum.splits)
  with True assms show ?thesis by simp
qed

lemma LoadX509KeyPair_frame:
  "tls_LoadX509KeyPair env c k m = (r, m') \<Longrightarrow> Config m' = Config m \<and> Context m' = Context m"
  by (auto simp: tls_LoadX509KeyPair_def dest!: ReadFile_state split: prod.splits sum.splits)

lemma initializeClient_x509_frame:
  "Config (snd (initializeClient_x509 env x client m)) = Config m \<and>
   Context (snd (initializeClient_x509 env x client m)) = Context m"
proof (cases "X509_IsValid x")
  case False
  then show ?thesis by (simp add: initializeClient_x509_def)
next
  case valid: True
  show ?thesis
  proof (cases "CertPath x \<noteq> [] \<and> KeyPath x \<noteq> []")
    case True
    with valid show ?thesis
      by (auto simp: initializeClient_x509_def
          dest!: LoadX509KeyPair_frame ReadFile_state
          split: sum.splits prod.splits outcome.splits)
  next
    case False
    with valid show ?thesis
      by (auto simp: initializeClient_x509_def Let_def split: sum.splits outcome.splits)
  qed
qed

lemma initializeClient_after:
  assumes "fst (initializeClient env m) = Return (c, None)"
  shows "Context (snd (initializeClient env m)) = first_group_context env m \<and>
     Config (snd (initializeClient env m)) = Config m"
proof (cases "x509_on m")
  case True
  then obtain a x where a: "Auth (Config m) = Some a" "Enabled a" "X509 a = Some x"
    by (auto simp: x509_on_def split: option.splits)
  then show ?thesis
    by (simp add: initializeClient_def first_group_context_def Let_def initializeClient_x509_frame)
next
  case False
  with assms show ?thesis
    by (auto simp: initializeClient_def first_group_context_def authenticateIAP_def x509_on_def Let_def
        split: option.splits prod.splits if_splits)
qed

section \<open>The token of the Google service account\<close>

lemma writeYAMLConfig_faulty:
  "stat_fault env (configLocation m) \<noteq> None \<or> write_fault env (configLocation m) \<noteq> None \<Longrightarrow>
   fs (snd (writeYAMLConfig env m)) = fs m"
  by (auto simp: writeYAMLConfig_def writeYAML_def os_Stat_def ioutil_WriteFile_def Let_def
      split: sum.splits option.splits)

lemma stored_gsa_token_set:
  "Auth (Config m) = Some a \<Longrightarrow> GoogleServiceAccount a = Some g \<Longrightarrow>
   stored_gsa_token (set_gsa_CachedToken t m) = t"
  by (simp add: stored_gsa_token_def set_gsa_CachedToken_def)

lemma stored_gsa_token_cong: "Config m' = Config m \<Longrightarrow> stored_gsa_token m' = stored_gsa_token m"
  by (simp add: stored_gsa_token_def)

lemma fetch_to_token:
  assumes "source_chosen env m g source pre"
  shows "\<exists>m2. authenticateGoogleServiceAccount_fetch env g m =
            authenticateGoogleServiceAccount_token env source m2 \<and>
          trace m2 = trace m @ pre \<and>
          Config m2 = Config (set_gsa_CachedToken None m) \<and>
          fs m2 = fs m \<and> configLocation m2 = configLocation m \<and>
          httpClient m2 = httpClient m \<and> GateEndpoint m2 = GateEndpoint m"
proof (cases "File g = []")
  case True
  let ?m2 = "emit (GoogleDefaultTokenSource [''profile'', ''email'']) (set_gsa_CachedToken None m)"
  have "authenticateGoogleServiceAccount_fetch env g m =
      authenticateGoogleServiceAccount_token env source ?m2"
    using assms True
    by (simp add: source_chosen_def authenticateGoogleServiceAccount_fetch_def Let_def)
  moreover have "trace ?m2 = trace m @ pre"
    using assms True by (simp add: source_chosen_def)
  ultimately show ?thesis
    by (intro exI [of _ ?m2]) simp
next
  case False
  then obtain jf where jf: "fs m (File g) = Some jf" "read_fault env (File g) = None"
    "google_JWTAccessTokenSourceFromJSON env (content jf)
       ''https://accounts.google.com/o/oauth2/v2/auth'' = Inr source"
    "pre = [ReadFile (File g),
            GoogleJWTAccessTokenSourceFromJSON (content jf)
              ''https://accounts.google.com/o/oauth2/v2/auth'']"
    using assms by (auto simp: source_chosen_def split: option.splits)
  let ?m1 = "emit (ReadFile (File g)) (set_gsa_CachedToken None m)"
  let ?m2 = "emit (GoogleJWTAccessTokenSourceFromJSON (content jf)
       ''https://accounts.google.com/o/oauth2/v2/auth'') ?m1"
  have rd: "ioutil_ReadFile env (set_gsa_CachedToken None m) (File g) = (Inr (content jf), ?m1)"
    using jf(1,2) by (simp add: ioutil_ReadFile_def Let_def)
  have "authenticateGoogleServiceAccount_fetch env g m =
      authenticateGoogleServiceAccount_token env source ?m2"
    using False jf(3) by (simp add: authenticateGoogleServiceAccount_fetch_def rd Let_def)
  moreover have "trace ?m2 = trace m @ pre"
    using jf(4) by simp
  ultimately show ?thesis
    by (intro exI [of _ ?m2]) simp
qed

lemma token_step:
  assumes "source_Token env source = Inr token" "login_possible env m2"
  defines "m5 \<equiv> (set_gsa_CachedToken (Some token)
             (emit (HttpDo (login_request m2 (AccessToken token))) (emit (SourceToken source) m2)))
             \<lparr>Context := Some Background\<rparr>"
  shows "snd (authenticateGoogleServiceAccount_token env source m2) = snd (writeYAMLConfig env m5)"
    and "fst (authenticateGoogleServiceAccount_token env source m2) =
           (case fst (writeYAMLConfig env m5) of Panic \<Rightarrow> Panic | Return r \<Rightarrow> Return None)"
proof -
  have l: "login env (AccessToken token) (emit (SourceToken source) m2) =
      (Return None, emit (HttpDo (login_request m2 (AccessToken token))) (emit (SourceToken source) m2))"
    using assms(2) login_ok [of env "emit (SourceToken source) m2" "AccessToken token"]
    by (simp add: login_possible_def login_request_def)
  show "snd (authenticateGoogleServiceAccount_token env source m2) = snd (writeYAMLConfig env m5)"
    using assms(1)
    by (simp add: authenticateGoogleServiceAccount_token_def l Let_def m5_def
        split: prod.splits outcome.splits)
  show "fst (authenticateGoogleServiceAccount_token env source m2) =
           (case fst (writeYAMLConfig env m5) of Panic \<Rightarrow> Panic | Return r \<Rightarrow> Return None)"
    using assms(1)
    by (simp add: authenticateGoogleServiceAccount_token_def l Let_def m5_def
        split: prod.splits outcome.splits)
qed

lemma gsa_fetch_run:
  assumes a: "Auth (Config m) = Some a" "GoogleServiceAccount a = Some g"
    and s: "source_chosen env m g source pre" "source_Token env source = Inr token"
      "login_possible env m"
  defines "r \<equiv> authenticateGoogleServiceAccount_fetch env g m"
  shows "stored_gsa_token (snd r) = Some token"
    and "Config (snd r) = Config (set_gsa_CachedToken (Some token) m)"
    and "\<exists>rest. trace (snd r) =
            trace m @ pre @ [SourceToken source, HttpDo (login_request m (AccessToken token))] @ rest \<and>
          list_all is_config_write rest"
    and "fs m (configLocation m) \<noteq> None \<or> stat_fault env (configLocation m) \<noteq> None \<Longrightarrow>
         fst r = Return None"
    and "write_possible env m \<Longrightarrow> fs m (configLocation m) = Some f \<Longrightarrow>
         yaml_Marshal env (Config (snd r)) = Inr buf \<Longrightarrow>
         fst r = Return None \<and>
         trace (snd r) =
           trace m @ pre @ [SourceToken source, HttpDo (login_request m (AccessToken token)),
             Stat (configLocation m), WriteFile (configLocation m) buf (file_Mode f)] \<and>
         fs (snd r) (configLocation m) = Some (f\<lparr>content := buf\<rparr>)"
    and "stat_fault env (configLocation m) \<noteq> None \<or> write_fault env (configLocation m) \<noteq> None \<Longrightarrow>
         fs (snd r) = fs m"
proof -
  obtain m2 where m2: "r = authenticateGoogleServiceAccount_token env source m2"
    "trace m2 = trace m @ pre" "Config m2 = Config (set_gsa_CachedToken None m)"
    "fs m2 = fs m" "configLocation m2 = configLocation m"
    "httpClient m2 = httpClient m" "GateEndpoint m2 = GateEndpoint m"
    using fetch_to_token [OF s(1)] unfolding r_def by blast
  let ?m4 = "emit (HttpDo (login_request m2 (AccessToken token))) (emit (SourceToken source) m2)"
  let ?m5 = "(set_gsa_CachedToken (Some token) ?m4)\<lparr>Context := Some Background\<rparr>"
  have lp: "login_possible env m2"
    using s(3) m2(6,7) by (simp add: login_possible_def)
  have lr: "login_request m2 (AccessToken token) = login_request m (AccessToken token)"
    using m2(7) by (simp add: login_request_def)
  have sn: "snd r = snd (writeYAMLConfig env ?m5)"
    and fs: "fst r = (case fst (writeYAMLConfig env ?m5) of Panic \<Rightarrow> Panic | Return x \<Rightarrow> Return None)"
    using token_step [OF s(2) lp] by (simp_all add: m2(1))
  have c5: "Config ?m5 = Config (set_gsa_CachedToken (Some token) m)"
  proof -
    have "Config ?m5 = Config (set_gsa_CachedToken (Some token) m2)" by simp
    also have "\<dots> = Config (set_gsa_CachedToken (Some token) (set_gsa_CachedToken None m))"
      using m2(3) by (simp add: set_gsa_CachedToken_def upd_auth_def)
    also have "\<dots> = Config (set_gsa_CachedToken (Some token) m)" by simp
    finally show ?thesis .
  qed
  have t5: "trace ?m5 = trace m @ pre @ [SourceToken source, HttpDo (login_request m (AccessToken token))]"
    using m2(2) lr by simp
  have loc5: "configLocation ?m5 = configLocation m" "fs ?m5 = fs m"
    using m2(4,5) by simp_all
  show cfg: "Config (snd r) = Config (set_gsa_CachedToken (Some token) m)"
    by (simp add: sn c5 del: set_gsa_CachedToken_emit)
  show "stored_gsa_token (snd r) = Some token"
    using stored_gsa_token_cong [OF cfg] stored_gsa_token_set [OF a, of "Some token"] by simp
  show "\<exists>rest. trace (snd r) =
            trace m @ pre @ [SourceToken source, HttpDo (login_request m (AccessToken token))] @ rest \<and>
          list_all is_config_write rest"
  proof -
    have "grows is_config_write ?m5 (snd (writeYAMLConfig env ?m5))"
      by (rule writeYAMLConfig_grows) simp_all
    then obtain rest where "trace (snd (writeYAMLConfig env ?m5)) = trace ?m5 @ rest"
      "\<forall>e\<in>set rest. is_config_write e"
      by (blast dest: growsD)
    then show ?thesis
      by (intro exI [of _ rest]) (simp add: sn t5 list_all_iff)
  qed
  show "fst r = Return None"
    if "fs m (configLocation m) \<noteq> None \<or> stat_fault env (configLocation m) \<noteq> None"
  proof -
    have "\<exists>x. fst (writeYAMLConfig env ?m5) = Return x"
      using that by (intro writeYAMLConfig_returns) (simp add: loc5)
    then show ?thesis by (auto simp: fs)
  qed
  show "fst r = Return None \<and>
         trace (snd r) =
           trace m @ pre @ [SourceToken source, HttpDo (login_request m (AccessToken token)),
             Stat (configLocation m), WriteFile (configLocation m) buf (file_Mode f)] \<and>
         fs (snd r) (configLocation m) = Some (f\<lparr>content := buf\<rparr>)"
    if w: "write_possible env m" "fs m (configLocation m) = Some f"
      "yaml_Marshal env (Config (snd r)) = Inr buf"
  proof -
    have y: "yaml_Marshal env (Config ?m5) = Inr buf"
      using w(3) by (simp add: cfg c5 del: set_gsa_CachedToken_emit)
    have wp: "write_possible env ?m5"
      using w(1) by (simp add: write_possible_def loc5)
    have "writeYAMLConfig env ?m5 =
      (Return None,
       (emit (WriteFile (configLocation ?m5) buf (file_Mode f)) (emit (Stat (configLocation ?m5)) ?m5))
         \<lparr>fs := (fs ?m5)(configLocation ?m5 \<mapsto> f\<lparr>content := buf\<rparr>)\<rparr>)"
      using w(2) by (intro writeYAMLConfig_ok [OF y wp]) (simp add: loc5)
    then show ?thesis
      using t5 loc5 by (simp add: sn fs)
  qed
  show "fs (snd r) = fs m"
    if "stat_fault env (configLocation m) \<noteq> None \<or> write_fault env (configLocation m) \<noteq> None"
    using writeYAMLConfig_faulty [of env ?m5] that by (simp add: sn loc5)
qed


text \<open>
  Two runs: a valid cached token is used for the login and nothing else happens; with
  no cached token the default credentials give a token, which is cached and written.
\<close>

lemma ex_gsa_st_facts:
  "Auth (Config (ex_gsa_st t)) =
     Some (ex_auth\<lparr>GoogleServiceAccount := Some \<lparr>gsa_Enabled = True, File = [], gsa_CachedToken = t\<rparr>\<rparr>)"
  "GoogleServiceAccount
     (ex_auth\<lparr>GoogleServiceAccount := Some \<lparr>gsa_Enabled = True, File = [], gsa_CachedToken = t\<rparr>\<rparr>) =
     Some \<lparr>gsa_Enabled = True, File = [], gsa_CachedToken = t\<rparr>"
  "gsa_Enabled \<lparr>gsa_Enabled = True, File = [], gsa_CachedToken = t\<rparr>"
  "GateEndpoint (ex_gsa_st t) = ''https://gate''"
  "configLocation (ex_gsa_st t) = ''/home/u/.spin/config''"
  "fs (ex_gsa_st t) ''/home/u/.spin/config'' = Some \<lparr>file_Mode = 0x1A4, content = ''old''\<rparr>"
  "trace (ex_gsa_st t) = []"
  "httpClient (ex_gsa_st t) = Some \<lparr>Jar = True, Transport = None\<rparr>"
  by (simp_all add: ex_gsa_st_def ex_st_def GateEndpoint_def)



section \<open>The order of the handlers and the final context\<close>

subsection \<open>New events\<close>

lemma grows_new_events:
  "grows P m m' \<Longrightarrow> trace m' = trace m @ new_events m m' \<and> list_all P (new_events m m')"
  unfolding grows_def new_events_def by (metis append_take_drop_id)

lemma new_events_eq: "trace m' = trace m @ evs \<Longrightarrow> new_events m m' = evs"
  by (simp add: new_events_def)

lemma new_events_same [simp]: "new_events m m = []"
  by (simp add: new_events_def)

lemma new_events_trans:
  "grows P a b \<Longrightarrow> grows Q b c \<Longrightarrow> new_events a c = new_events a b @ new_events b c"
  by (metis append.assoc grows_new_events new_events_eq)

lemma grows_weaken: "grows P m m' \<Longrightarrow> (\<And>e. P e \<Longrightarrow> Q e) \<Longrightarrow> grows Q m m'"
  by (auto simp: grows_def list_all_iff)

lemma grows_fields [simp]:
  "grows P m (m'\<lparr>httpClient := c\<rparr>) \<longleftrightarrow> grows P m m'"
  "grows P (m\<lparr>httpClient := c\<rparr>) m' \<longleftrightarrow> grows P m m'"
  "grows P m (m'\<lparr>stdin := x\<rparr>) \<longleftrightarrow> grows P m m'"
  by (simp_all add: grows_def)

lemma new_events_fields [simp]:
  "new_events m (m'\<lparr>httpClient := c\<rparr>) = new_events m m'"
  "new_events (m\<lparr>httpClient := c\<rparr>) m' = new_events m m'"
  "new_events m (m'\<lparr>Context := x\<rparr>) = new_events m m'"
  by (simp_all add: new_events_def)

lemma login_shape:
  "login env tok m = (Return (Some e), m') \<Longrightarrow> m' = m"
  "login env tok m = (Panic, m') \<Longrightarrow> m' = m"
  "login env tok m = (Return None, m') \<Longrightarrow> m' = emit (HttpDo (login_request m tok)) m"
  by (auto simp: login_cases login_request_def split: option.splits)

lemma login_request_get [simp]: "Method (login_request m tok) = ''GET''"
  by (simp add: login_request_def)

lemma login_grows_get:
  "(\<And>r. Method r = ''GET'' \<Longrightarrow> P (HttpDo r)) \<Longrightarrow> grows P m (snd (login env tok m))"
  by (simp add: login_cases grows_emit split: option.splits)

lemma authenticateOAuth2_cache_shape:
  "snd (authenticateOAuth2_cache env t m) =
     snd (writeYAMLConfig env
       (set_OAuth2_CachedToken (Some t) (emit (UiInfo ''Caching oauth2 token.'') m))) \<or>
   snd (authenticateOAuth2_cache env t m) =
     snd (login env (AccessToken t) (snd (writeYAMLConfig env
       (set_OAuth2_CachedToken (Some t) (emit (UiInfo ''Caching oauth2 token.'') m))))) \<or>
   snd (authenticateOAuth2_cache env t m) =
     (snd (login env (AccessToken t) (snd (writeYAMLConfig env
       (set_OAuth2_CachedToken (Some t) (emit (UiInfo ''Caching oauth2 token.'') m))))))
     \<lparr>Context := Some Background\<rparr>"
  by (auto simp: authenticateOAuth2_cache_def Let_def split: prod.splits outcome.splits)

lemma authenticateOAuth2_cache_run:
  "grows oauth2_event (emit (UiInfo ''Caching oauth2 token.'') m) (snd (authenticateOAuth2_cache env t m))"
  "httpClient (snd (authenticateOAuth2_cache env t m)) = httpClient m"
proof -
  let ?m1 = "emit (UiInfo ''Caching oauth2 token.'') m"
  let ?m2 = "set_OAuth2_CachedToken (Some t) ?m1"
  let ?m3 = "snd (writeYAMLConfig env ?m2)"
  let ?m4 = "snd (login env (AccessToken t) ?m3)"
  have a: "grows oauth2_event ?m1 ?m2"
    by (rule grows_same) simp
  have b: "grows oauth2_event ?m2 ?m3"
    by (rule writeYAMLConfig_grows) simp_all
  have c: "grows oauth2_event ?m3 ?m4"
    by (rule login_grows_get) simp
  have ab: "grows oauth2_event ?m1 ?m3" using a b by (rule grows_trans)
  have abc: "grows oauth2_event ?m1 ?m4" using ab c by (rule grows_trans)
  show "grows oauth2_event ?m1 (snd (authenticateOAuth2_cache env t m))"
    using authenticateOAuth2_cache_shape [of env t m] ab abc by auto
  show "httpClient (snd (authenticateOAuth2_cache env t m)) = httpClient m"
    using authenticateOAuth2_cache_shape [of env t m] by auto
qed

lemma grows_emits:
  "P e \<Longrightarrow> grows P m m' \<Longrightarrow> grows P m (emit e m')"
  by (rule grows_emit_after)

lemma authenticateOAuth2_shape:
  assumes "oauth2_on m"
  shows "\<exists>m0. grows oauth2_event m m0 \<and> httpClient m0 = httpClient m \<and>
           ((\<exists>e. authenticateOAuth2 env m = (Return (Some e), m0)) \<or>
            (\<exists>t. authenticateOAuth2 env m = authenticateOAuth2_cache env t m0))"
proof -
  from assms obtain a c where a: "Auth (Config m) = Some a" "Enabled a" "OAuth2 a = Some c"
    by (auto simp: oauth2_on_def split: option.splits)
  show ?thesis
  proof (cases "oauth2_IsValid env c")
    case False
    with a have "authenticateOAuth2 env m =
        (Return (Some (errors_New ''incorrect OAuth2 auth configuration'')), m)"
      by (simp add: authenticateOAuth2_def)
    then show ?thesis
      by (intro exI [of _ m]) simp
  next
    case valid: True
    show ?thesis
    proof (cases "CachedToken c")
      case (Some tok)
      let ?m1 = "emit (TokenSourceToken (oauth2_Config_of c) tok) m"
      have g1: "grows oauth2_event m ?m1"
        by (rule grows_emit) simp
      show ?thesis
      proof (cases "TokenSource_Token env (oauth2_Config_of c) tok")
        case (Inl err)
        let ?m0 = "emit (UiError (''Could not refresh token from source: ''
                      @ fmt_TokenSource env (oauth2_Config_of c) tok)) ?m1"
        have "authenticateOAuth2 env m = (Return (Some err), ?m0)"
          using valid Inl by (simp add: authenticateOAuth2_cached [OF a Some])
        moreover have "grows oauth2_event m ?m0"
          using g1 by (intro grows_emits) simp_all
        ultimately show ?thesis
          by (intro exI [of _ ?m0]) simp
      next
        case (Inr t)
        have "authenticateOAuth2 env m = authenticateOAuth2_cache env t ?m1"
          using valid Inr by (simp add: authenticateOAuth2_cached [OF a Some])
        with g1 show ?thesis
          by (intro exI [of _ ?m1]) auto
      qed
    next
      case None
      let ?m1 = "emit (RandRead 64) (emit (GoListenAndServe '':8085'') (emit (HttpHandle ''/'') m))"
      have g1: "grows oauth2_event m ?m1"
        by (intro grows_emits grows_refl) simp_all
      show ?thesis
      proof (cases "rand_Read env (make_bytes 64)")
        case (Inl err)
        let ?m0 = "emit (UiError ''Could not generate random string for code_verifier'') ?m1"
        have "authenticateOAuth2 env m = (Return (Some err), ?m0)"
          using a valid None Inl
          by (simp add: authenticateOAuth2_def generateCodeVerifier_def Let_def)
        moreover have "grows oauth2_event m ?m0"
          using g1 by (intro grows_emits) simp_all
        ultimately show ?thesis
          by (intro exI [of _ ?m0]) simp
      next
        case (Inr bs)
        have "\<exists>e1 e2 x. oauth2_event e1 \<and> oauth2_event e2 \<and>
           ((\<exists>e. authenticateOAuth2 env m =
               (Return (Some e),
                emit e1 ((emit StdinReadString (emit (UiOutput ''Paste authorization code:'')
                  (emit e2 ?m1)))\<lparr>stdin := x\<rparr>))) \<or>
            (\<exists>t. authenticateOAuth2 env m =
               authenticateOAuth2_cache env t
                 (emit e1 ((emit StdinReadString (emit (UiOutput ''Paste authorization code:'')
                   (emit e2 ?m1)))\<lparr>stdin := x\<rparr>))))"
          using a valid None Inr
          by (simp add: authenticateOAuth2_def generateCodeVerifier_def prompt_eq Let_def
              split: sum.splits)
             (metis oauth2_event.simps(6) oauth2_event.simps(8))
        then obtain e1 e2 x where e: "oauth2_event e1" "oauth2_event e2"
          and r: "(\<exists>e. authenticateOAuth2 env m =
               (Return (Some e),
                emit e1 ((emit StdinReadString (emit (UiOutput ''Paste authorization code:'')
                  (emit e2 ?m1)))\<lparr>stdin := x\<rparr>))) \<or>
            (\<exists>t. authenticateOAuth2 env m =
               authenticateOAuth2_cache env t
                 (emit e1 ((emit StdinReadString (emit (UiOutput ''Paste authorization code:'')
                   (emit e2 ?m1)))\<lparr>stdin := x\<rparr>)))"
          by blast
        let ?m0 = "emit e1 ((emit StdinReadString (emit (UiOutput ''Paste authorization code:'')
                  (emit e2 ?m1)))\<lparr>stdin := x\<rparr>)"
        have "grows oauth2_event m
            (emit StdinReadString (emit (UiOutput ''Paste authorization code:'') (emit e2 ?m1)))"
          using g1 e(2) by (intro grows_emits) simp_all
        then have "grows oauth2_event m ?m0"
          using e(1) by (intro grows_emits) simp_all
        with r show ?thesis
          by (intro exI [of _ ?m0]) simp
      qed
    qed
  qed
qed

lemma authenticateOAuth2_off:
  "\<not> oauth2_on m \<Longrightarrow> authenticateOAuth2 env m = (Return None, m)"
  by (auto simp: authenticateOAuth2_def oauth2_on_def split: option.splits)

lemma authenticateOAuth2_run:
  shows "grows oauth2_event m (snd (authenticateOAuth2 env m))"
    and "httpClient (snd (authenticateOAuth2 env m)) = httpClient m"
    and "fst (authenticateOAuth2 env m) = Return None \<Longrightarrow> oauth2_on m \<Longrightarrow>
         UiInfo ''Caching oauth2 token.'' \<in> set (new_events m (snd (authenticateOAuth2 env m)))"
proof -
  have all: "grows oauth2_event m (snd (authenticateOAuth2 env m)) \<and>
      httpClient (snd (authenticateOAuth2 env m)) = httpClient m \<and>
      (fst (authenticateOAuth2 env m) = Return None \<longrightarrow> oauth2_on m \<longrightarrow>
         UiInfo ''Caching oauth2 token.'' \<in> set (new_events m (snd (authenticateOAuth2 env m))))"
  proof (cases "oauth2_on m")
    case False
    then show ?thesis by (simp add: authenticateOAuth2_off)
  next
    case True
    from authenticateOAuth2_shape [OF True, of env] obtain m0 where g: "grows oauth2_event m m0"
      and h: "httpClient m0 = httpClient m"
      and r: "(\<exists>e. authenticateOAuth2 env m = (Return (Some e), m0)) \<or>
            (\<exists>t. authenticateOAuth2 env m = authenticateOAuth2_cache env t m0)"
      by blast
    from r show ?thesis
    proof
      assume "\<exists>e. authenticateOAuth2 env m = (Return (Some e), m0)"
      with g h show ?thesis by auto
    next
      assume "\<exists>t. authenticateOAuth2 env m = authenticateOAuth2_cache env t m0"
      then obtain t where e: "authenticateOAuth2 env m = authenticateOAuth2_cache env t m0"
        by blast
      let ?m1 = "emit (UiInfo ''Caching oauth2 token.'') m0"
      let ?m' = "snd (authenticateOAuth2_cache env t m0)"
      have g1: "grows oauth2_event m ?m1"
        using g by (intro grows_emits) simp_all
      have g2: "grows oauth2_event ?m1 ?m'"
        by (rule authenticateOAuth2_cache_run)
      have g3: "grows oauth2_event m ?m'"
        using g1 g2 by (rule grows_trans)
      have "new_events m ?m' = new_events m ?m1 @ new_events ?m1 ?m'"
        using g1 g2 by (rule new_events_trans)
      moreover have "new_events m ?m1 = new_events m m0 @ [UiInfo ''Caching oauth2 token.'']"
        using grows_new_events [OF g] by (intro new_events_eq) simp
      ultimately have "UiInfo ''Caching oauth2 token.'' \<in> set (new_events m ?m')"
        by simp
      with g3 h show ?thesis
        by (simp add: e authenticateOAuth2_cache_run)
    qed
  qed
  show "grows oauth2_event m (snd (authenticateOAuth2 env m))"
    and "httpClient (snd (authenticateOAuth2 env m)) = httpClient m"
    and "fst (authenticateOAuth2 env m) = Return None \<Longrightarrow> oauth2_on m \<Longrightarrow>
         UiInfo ''Caching oauth2 token.'' \<in> set (new_events m (snd (authenticateOAuth2 env m)))"
    using all by simp_all
qed

lemma writeYAMLConfig_run:
  "grows gsa_event m (snd (writeYAMLConfig env m))"
  by (rule writeYAMLConfig_grows) simp_all

lemma authenticateGoogleServiceAccount_token_run:
  shows "grows gsa_event m (snd (authenticateGoogleServiceAccount_token env source m))"
    and "httpClient (snd (authenticateGoogleServiceAccount_token env source m)) = httpClient m"
    and "fst (authenticateGoogleServiceAccount_token env source m) = Return None \<Longrightarrow>
         SourceToken source \<in> set (new_events m (snd (authenticateGoogleServiceAccount_token env source m)))"
proof -
  let ?m3 = "emit (SourceToken source) m"
  let ?r = "authenticateGoogleServiceAccount_token env source m"
  have g3: "grows gsa_event m ?m3"
    by (rule grows_emit) simp
  have n3: "new_events m ?m3 = [SourceToken source]"
    by (rule new_events_eq) simp
  have all: "grows gsa_event ?m3 (snd ?r) \<and> httpClient (snd ?r) = httpClient m"
  proof (cases "source_Token env source")
    case (Inl err)
    then show ?thesis
      by (simp add: authenticateGoogleServiceAccount_token_def Let_def)
  next
    case (Inr token)
    obtain out m4 where l: "login env (AccessToken token) ?m3 = (out, m4)"
      by (cases "login env (AccessToken token) ?m3")
    have g4: "grows gsa_event ?m3 m4" and h4: "httpClient m4 = httpClient m"
      using login_grows_get [where P = gsa_event and m = ?m3 and env = env and tok = "AccessToken token"]
        login_frame(3) [where env = env and tok = "AccessToken token" and m = ?m3] l
      by simp_all
    show ?thesis
    proof (cases "out = Return None")
      case False
      then have "snd ?r = m4"
        using Inr l
        by (cases out)
           (auto simp: authenticateGoogleServiceAccount_token_def Let_def split: option.splits)
      with g4 h4 show ?thesis by simp
    next
      case True
      let ?m5 = "(set_gsa_CachedToken (Some token) m4)\<lparr>Context := Some Background\<rparr>"
      have s: "snd ?r = snd (writeYAMLConfig env ?m5)"
        using Inr l True
        by (simp add: authenticateGoogleServiceAccount_token_def Let_def
            split: prod.splits outcome.splits)
      have "grows gsa_event m4 ?m5"
        by (rule grows_same) simp
      with g4 have "grows gsa_event ?m3 ?m5"
        by (rule grows_trans)
      then have "grows gsa_event ?m3 (snd (writeYAMLConfig env ?m5))"
        using writeYAMLConfig_run by (rule grows_trans)
      with h4 show ?thesis
        by (simp add: s)
    qed
  qed
  then have g: "grows gsa_event ?m3 (snd ?r)" and h: "httpClient (snd ?r) = httpClient m"
    by simp_all
  show "grows gsa_event m (snd ?r)"
    using g3 g by (rule grows_trans)
  show "httpClient (snd ?r) = httpClient m"
    by (rule h)
  show "SourceToken source \<in> set (new_events m (snd ?r))"
    using new_events_trans [OF g3 g] n3 by simp
qed

lemma authenticateGoogleServiceAccount_fetch_shape:
  "\<exists>m2. grows gsa_event m m2 \<and> httpClient m2 = httpClient m \<and>
     ((\<exists>e. authenticateGoogleServiceAccount_fetch env g m = (Return (Some e), m2)) \<or>
      (\<exists>source. authenticateGoogleServiceAccount_fetch env g m =
          authenticateGoogleServiceAccount_token env source m2))"
proof (cases "File g = []")
  case True
  let ?m2 = "emit (GoogleDefaultTokenSource [''profile'', ''email'']) (set_gsa_CachedToken None m)"
  have "grows gsa_event m (set_gsa_CachedToken None m)"
    by (rule grows_same) simp
  then have g: "grows gsa_event m ?m2"
    by (intro grows_emits) simp_all
  have "(\<exists>e. authenticateGoogleServiceAccount_fetch env g m = (Return (Some e), ?m2)) \<or>
      (\<exists>source. authenticateGoogleServiceAccount_fetch env g m =
          authenticateGoogleServiceAccount_token env source ?m2)"
    using True
    by (cases "google_DefaultTokenSource env [''profile'', ''email'']")
       (auto simp: authenticateGoogleServiceAccount_fetch_def Let_def)
  with g show ?thesis
    by (intro exI [of _ ?m2]) simp
next
  case False
  let ?m1 = "emit (ReadFile (File g)) (set_gsa_CachedToken None m)"
  have "grows gsa_event m (set_gsa_CachedToken None m)"
    by (rule grows_same) simp
  then have g1: "grows gsa_event m ?m1"
    by (intro grows_emits) simp_all
  obtain r where rd: "ioutil_ReadFile env (set_gsa_CachedToken None m) (File g) = (r, ?m1)"
    by (cases "ioutil_ReadFile env (set_gsa_CachedToken None m) (File g)")
       (auto dest: ReadFile_state)
  show ?thesis
  proof (cases r)
    case (Inl ferr)
    with False rd have "authenticateGoogleServiceAccount_fetch env g m = (Return (Some ferr), ?m1)"
      by (simp add: authenticateGoogleServiceAccount_fetch_def Let_def)
    with g1 show ?thesis
      by (intro exI [of _ ?m1]) simp
  next
    case (Inr json)
    let ?m2 = "emit (GoogleJWTAccessTokenSourceFromJSON json
                 ''https://accounts.google.com/o/oauth2/v2/auth'') ?m1"
    have g: "grows gsa_event m ?m2"
      by (rule grows_emits [OF _ g1]) simp
    have "(\<exists>e. authenticateGoogleServiceAccount_fetch env g m = (Return (Some e), ?m2)) \<or>
      (\<exists>source. authenticateGoogleServiceAccount_fetch env g m =
          authenticateGoogleServiceAccount_token env source ?m2)"
      using False rd Inr
      by (cases "google_JWTAccessTokenSourceFromJSON env json
            ''https://accounts.google.com/o/oauth2/v2/auth''")
         (auto simp: authenticateGoogleServiceAccount_fetch_def Let_def)
    with g show ?thesis
      by (intro exI [of _ ?m2]) simp
  qed
qed

lemma authenticateGoogleServiceAccount_fetch_run:
  shows "grows gsa_event m (snd (authenticateGoogleServiceAccount_fetch env g m))"
    and "httpClient (snd (authenticateGoogleServiceAccount_fetch env g m)) = httpClient m"
    and "fst (authenticateGoogleServiceAccount_fetch env g m) = Return None \<Longrightarrow>
         \<exists>s. SourceToken s \<in> set (new_events m (snd (authenticateGoogleServiceAccount_fetch env g m)))"
proof -
  let ?r = "authenticateGoogleServiceAccount_fetch env g m"
  from authenticateGoogleServiceAccount_fetch_shape [where m = m and env = env and g = g]
  obtain m2 where g: "grows gsa_event m m2" and h: "httpClient m2 = httpClient m"
    and r: "(\<exists>e. ?r = (Return (Some e), m2)) \<or>
      (\<exists>source. ?r = authenticateGoogleServiceAccount_token env source m2)"
    by blast
  have all: "grows gsa_event m (snd ?r) \<and> httpClient (snd ?r) = httpClient m \<and>
      (fst ?r = Return None \<longrightarrow> (\<exists>s. SourceToken s \<in> set (new_events m (snd ?r))))"
    using r
  proof
    assume "\<exists>e. ?r = (Return (Some e), m2)"
    with g h show ?thesis by auto
  next
    assume "\<exists>source. ?r = authenticateGoogleServiceAccount_token env source m2"
    then obtain source where e: "?r = authenticateGoogleServiceAccount_token env source m2"
      by blast
    let ?t = "authenticateGoogleServiceAccount_token env source m2"
    note t = authenticateGoogleServiceAccount_token_run [where m = m2 and env = env and source = source]
    have g': "grows gsa_event m (snd ?t)"
      using g t(1) by (rule grows_trans)
    have "fst ?t = Return None \<Longrightarrow> SourceToken source \<in> set (new_events m (snd ?t))"
      using new_events_trans [OF g t(1)] t(3) by simp
    with g' t(2) h show ?thesis
      by (auto simp: e)
  qed
  show "grows gsa_event m (snd ?r)" and "httpClient (snd ?r) = httpClient m"
    and "fst ?r = Return None \<Longrightarrow> \<exists>s. SourceToken s \<in> set (new_events m (snd ?r))"
    using all by simp_all
qed

lemma authenticateGoogleServiceAccount_off:
  "\<not> gsa_on m \<Longrightarrow> authenticateGoogleServiceAccount env m = (Return None, m)"
  by (auto simp: authenticateGoogleServiceAccount_def gsa_on_def split: option.splits)

lemma authenticateGoogleServiceAccount_run:
  shows "grows gsa_event m (snd (authenticateGoogleServiceAccount env m))"
    and "httpClient (snd (authenticateGoogleServiceAccount env m)) = httpClient m"
    and "fst (authenticateGoogleServiceAccount env m) = Return None \<Longrightarrow> gsa_on m \<Longrightarrow>
         \<not> gsa_cached_valid env m \<Longrightarrow>
         \<exists>s. SourceToken s \<in> set (new_events m (snd (authenticateGoogleServiceAccount env m)))"
proof -
  let ?r = "authenticateGoogleServiceAccount env m"
  have all: "grows gsa_event m (snd ?r) \<and> httpClient (snd ?r) = httpClient m \<and>
     (fst ?r = Return None \<longrightarrow> gsa_on m \<longrightarrow> \<not> gsa_cached_valid env m \<longrightarrow>
        (\<exists>s. SourceToken s \<in> set (new_events m (snd ?r))))"
  proof (cases "gsa_on m")
    case False
    then show ?thesis by (simp add: authenticateGoogleServiceAccount_off)
  next
    case True
    then obtain a g where a: "Auth (Config m) = Some a" "GoogleServiceAccount a = Some g" "gsa_Enabled g"
      by (auto simp: gsa_on_def gsa_IsEnabled_def split: option.splits)
    have v: "gsa_cached_valid env m = cached_valid env g"
      using a by (simp add: gsa_cached_valid_def)
    show ?thesis
    proof (cases "cached_valid env g")
      case True
      then obtain t where "gsa_CachedToken g = Some t" "token_Valid env t"
        by (auto simp: cached_valid_def split: option.splits)
      then have "?r = login env (AccessToken t) m"
        by (simp add: gsa_enabled_run [OF a])
      with True v show ?thesis
        by (simp add: login_grows_get)
    next
      case False
      then have "?r = authenticateGoogleServiceAccount_fetch env g m"
        by (simp add: gsa_enabled_run [OF a] cached_valid_def split: option.splits)
      then show ?thesis
        using authenticateGoogleServiceAccount_fetch_run [where m = m and env = env and g = g] by simp
    qed
  qed
  show "grows gsa_event m (snd ?r)" and "httpClient (snd ?r) = httpClient m"
    and "fst ?r = Return None \<Longrightarrow> gsa_on m \<Longrightarrow> \<not> gsa_cached_valid env m \<Longrightarrow>
         \<exists>s. SourceToken s \<in> set (new_events m (snd ?r))"
    using all by simp_all
qed

lemma authenticateLdap_off:
  "\<not> ldap_on m \<Longrightarrow> authenticateLdap env m = (Return None, m)"
  by (auto simp: authenticateLdap_def ldap_on_def split: option.splits)

lemma authenticateLdap_on:
  assumes "Auth (Config m) = Some a" "Enabled a" "Ldap a = Some l"
  shows "trace (snd (authenticateLdap env m)) =
       trace m @ ldap_prompts l @
       (if ldap_username env m l \<noteq> [] \<and> ldap_password env m l \<noteq> [] \<and>
           url_Parse_error env (GateEndpoint m @ ''/login'') = None \<and> httpClient m \<noteq> None
        then [HttpDo (ldap_login_request env m (ldap_username env m l) (ldap_password env m l))]
        else []) \<and>
     httpClient (snd (authenticateLdap env m)) = httpClient m \<and>
     (fst (authenticateLdap env m) = Return None \<longrightarrow>
        ldap_username env m l \<noteq> [] \<and> ldap_password env m l \<noteq> [] \<and>
        url_Parse_error env (GateEndpoint m @ ''/login'') = None \<and> httpClient m \<noteq> None)"
  using assms
  by (cases "ldap_Username l = []"; cases "ldap_Password l = []")
     (simp_all add: authenticateLdap_def prompt_eq securePrompt_eq ldap_prompts_def
        ldap_username_def ldap_password_def ldap_login_request_def Ldap_IsValid_def
        http_NewRequest_def Header_Set_def errors_New_def Let_def
        split: option.splits sum.splits)

lemma ldap_prompts_events: "list_all ldap_event (ldap_prompts l)"
  by (simp add: ldap_prompts_def)

lemma authenticateLdap_run:
  shows "grows ldap_event m (snd (authenticateLdap env m))"
    and "httpClient (snd (authenticateLdap env m)) = httpClient m"
    and "fst (authenticateLdap env m) = Return None \<Longrightarrow> ldap_on m \<Longrightarrow>
         \<exists>r. Method r = ''POST'' \<and> HttpDo r \<in> set (new_events m (snd (authenticateLdap env m)))"
proof -
  let ?r = "authenticateLdap env m"
  have all: "grows ldap_event m (snd ?r) \<and> httpClient (snd ?r) = httpClient m \<and>
     (fst ?r = Return None \<longrightarrow> ldap_on m \<longrightarrow>
        (\<exists>r. Method r = ''POST'' \<and> HttpDo r \<in> set (new_events m (snd ?r))))"
  proof (cases "ldap_on m")
    case False
    then show ?thesis by (simp add: authenticateLdap_off)
  next
    case True
    then obtain a l where a: "Auth (Config m) = Some a" "Enabled a" "Ldap a = Some l"
      by (auto simp: ldap_on_def split: option.splits)
    let ?c = "ldap_username env m l \<noteq> [] \<and> ldap_password env m l \<noteq> [] \<and>
           url_Parse_error env (GateEndpoint m @ ''/login'') = None \<and> httpClient m \<noteq> None"
    let ?q = "ldap_login_request env m (ldap_username env m l) (ldap_password env m l)"
    let ?evs = "ldap_prompts l @ (if ?c then [HttpDo ?q] else [])"
    note on = authenticateLdap_on [OF a, of env]
    have t: "trace (snd ?r) = trace m @ ?evs"
      using on by simp
    have p: "Method ?q = ''POST''"
      by (simp add: ldap_login_request_def)
    have "\<forall>e\<in>set ?evs. ldap_event e"
      using ldap_prompts_events [of l] p by (auto simp: list_all_iff)
    with t have g: "grows ldap_event m (snd ?r)"
      by (rule growsI)
    have n: "new_events m (snd ?r) = ?evs"
      using t by (rule new_events_eq)
    have "fst ?r = Return None \<longrightarrow> (\<exists>r. Method r = ''POST'' \<and> HttpDo r \<in> set (new_events m (snd ?r)))"
    proof
      assume "fst ?r = Return None"
      with on have ?c by blast
      then have "HttpDo ?q \<in> set (new_events m (snd ?r))"
        by (simp add: n)
      with p show "\<exists>r. Method r = ''POST'' \<and> HttpDo r \<in> set (new_events m (snd ?r))"
        by blast
    qed
    with g on show ?thesis by simp
  qed
  show "grows ldap_event m (snd ?r)" and "httpClient (snd ?r) = httpClient m"
    and "fst ?r = Return None \<Longrightarrow> ldap_on m \<Longrightarrow>
         \<exists>r. Method r = ''POST'' \<and> HttpDo r \<in> set (new_events m (snd ?r))"
    using all by simp_all
qed

subsection \<open>The client initialisation\<close>

lemma LoadX509KeyPair_shape:
  "tls_LoadX509KeyPair env c k m = (r, m') \<Longrightarrow>
   m' = emit (ReadFile c) m \<or> m' = emit (ReadFile k) (emit (ReadFile c) m)"
  by (auto simp: tls_LoadX509KeyPair_def dest!: ReadFile_state split: prod.splits sum.splits)

lemma initializeX509Config_transport:
  "initializeX509Config m client ca cert = Return c \<Longrightarrow> Transport c \<noteq> None"
  by (auto simp: initializeX509Config_def Let_def split: option.splits)

lemma initializeClient_x509_run:
  shows "grows (\<lambda>e. \<exists>n. e = ReadFile n) m (snd (initializeClient_x509 env x client m))"
    and "fst (initializeClient_x509 env x client m) = Return (Some c, e) \<Longrightarrow> Transport c \<noteq> None"
proof -
  let ?P = "\<lambda>e. \<exists>n. e = ReadFile n"
  have e1: "grows ?P m (emit (ReadFile a) m)" for a
    by (rule grows_emit) simp
  have e2: "grows ?P m (emit (ReadFile b) (emit (ReadFile a) m))" for a b
    by (intro grows_emits grows_refl) simp_all
  have e3: "grows ?P m (emit (ReadFile d) (emit (ReadFile b) (emit (ReadFile a) m)))" for a b d
    by (intro grows_emits grows_refl) simp_all
  show "grows ?P m (snd (initializeClient_x509 env x client m))"
  proof (cases "X509_IsValid x \<and> CertPath x \<noteq> [] \<and> KeyPath x \<noteq> []")
    case True
    then show ?thesis
      by (auto simp: initializeClient_x509_def e1 e2 e3
          dest!: LoadX509KeyPair_shape ReadFile_state
          split: sum.splits prod.splits outcome.splits)
  next
    case False
    then show ?thesis
      by (auto simp: initializeClient_x509_def Let_def split: sum.splits outcome.splits)
  qed
  show "Transport c \<noteq> None" if "fst (initializeClient_x509 env x client m) = Return (Some c, e)"
    using that
    by (auto simp: initializeClient_x509_def Let_def dest!: initializeX509Config_transport
        split: sum.splits prod.splits outcome.splits if_splits)
qed

lemma initializeClient_run:
  shows "grows init_event m (snd (initializeClient env m))"
    and "(\<exists>i. GetIapToken i \<in> set (new_events m (snd (initializeClient env m)))) \<longleftrightarrow>
         \<not> x509_on m \<and> iap_on m"
    and "fst (initializeClient env m) = Return (c, None) \<Longrightarrow>
         \<exists>cl. c = Some cl \<and> (Transport cl \<noteq> None \<longleftrightarrow> x509_on m)"
proof -
  let ?r = "initializeClient env m"
  let ?m' = "set_DefaultTransport_insecure m"
  have all: "grows init_event m (snd ?r) \<and>
     ((\<exists>i. GetIapToken i \<in> set (new_events m (snd ?r))) \<longleftrightarrow> \<not> x509_on m \<and> iap_on m) \<and>
     (fst ?r = Return (c, None) \<longrightarrow> (\<exists>cl. c = Some cl \<and> (Transport cl \<noteq> None \<longleftrightarrow> x509_on m)))"
  proof (cases "x509_on m")
    case True
    then obtain a x where a: "Auth (Config m) = Some a" "Enabled a" "X509 a = Some x"
      by (auto simp: x509_on_def split: option.splits)
    let ?cl = "\<lparr>Jar = True, Transport = Some \<lparr>TLSClientConfig = Some tls_Config_zero\<rparr>\<rparr>"
    have e: "?r = initializeClient_x509 env x ?cl ?m'"
      using a by (simp add: initializeClient_def Let_def)
    note x = initializeClient_x509_run [where m = ?m' and env = env and x = x and client = ?cl]
    have g: "grows (\<lambda>e. \<exists>n. e = ReadFile n) m (snd ?r)"
      using x(1) by (simp add: e grows_def)
    then have g': "grows init_event m (snd ?r)"
      by (rule grows_weaken) auto
    have "\<forall>e\<in>set (new_events m (snd ?r)). \<exists>n. e = ReadFile n"
      using grows_new_events [OF g] by (simp add: list_all_iff)
    then have n: "\<not> (\<exists>i. GetIapToken i \<in> set (new_events m (snd ?r)))"
      by auto
    have "fst ?r = Return (c, None) \<longrightarrow> (\<exists>cl. c = Some cl \<and> Transport cl \<noteq> None)"
    proof
      assume s: "fst ?r = Return (c, None)"
      then obtain cl where "c = Some cl"
        using a
        by (cases c)
           (auto simp: e initializeClient_x509_def Let_def
              split: sum.splits prod.splits outcome.splits if_splits)
      with s x(2) [of cl None] show "\<exists>cl. c = Some cl \<and> Transport cl \<noteq> None"
        by (simp add: e)
    qed
    with g' n True show ?thesis by auto
  next
    case False
    show ?thesis
    proof (cases "iap_on m")
      case True
      with False obtain a i where a: "Auth (Config m) = Some a" "Enabled a" "X509 a = None" "Iap a = Some i"
        by (auto simp: x509_on_def iap_on_def split: option.splits)
      have s: "snd ?r = (emit (GetIapToken i) ?m')\<lparr>Context := Some (WithAccessToken (fst (iap_GetIapToken env i)))\<rparr>"
        and f: "fst ?r = Return (Some \<lparr>Jar = True, Transport = None\<rparr>, snd (iap_GetIapToken env i))"
        using a
        by (simp_all add: initializeClient_def authenticateIAP_def Let_def split: prod.splits)
      have t: "trace (snd ?r) = trace m @ [GetIapToken i]"
        by (simp add: s)
      have "grows init_event m (snd ?r)"
        using t by (rule growsI) simp
      moreover have "new_events m (snd ?r) = [GetIapToken i]"
        using t by (rule new_events_eq)
      ultimately show ?thesis
        using True False f by auto
    next
      case no_iap: False
      have "trace (snd ?r) = trace m \<and>
         (fst ?r = Return (c, None) \<longrightarrow> c = Some \<lparr>Jar = True, Transport = None\<rparr>)"
        using False no_iap
        by (auto simp: initializeClient_def x509_on_def iap_on_def Let_def
            split: option.splits if_splits)
      then have "grows init_event m (snd ?r)" "new_events m (snd ?r) = []"
        "fst ?r = Return (c, None) \<longrightarrow> c = Some \<lparr>Jar = True, Transport = None\<rparr>"
        by (simp_all add: grows_same new_events_def)
      then show ?thesis
        using False no_iap by auto
    qed
  qed
  show "grows init_event m (snd ?r)"
    and "(\<exists>i. GetIapToken i \<in> set (new_events m (snd ?r))) \<longleftrightarrow> \<not> x509_on m \<and> iap_on m"
    and "fst ?r = Return (c, None) \<Longrightarrow>
         \<exists>cl. c = Some cl \<and> (Transport cl \<noteq> None \<longleftrightarrow> x509_on m)"
    using all by simp_all
qed


lemmas ex_defs = ex_st_def ex_auth_def ex_env_def ex_token_def

lemma ex_iap_basic_run:
  "fst (NewGateClient_handlers ex_env ex_iap_basic_st) = Return None"
  "trace (snd (NewGateClient_handlers ex_env ex_iap_basic_st)) =
     [GetIapToken (IapConfig [(''iapclientid'', ''id'')])]"
  "Context (snd (NewGateClient_handlers ex_env ex_iap_basic_st)) =
     Some (WithAccessToken ''iap-token'')"
  by (simp_all add: NewGateClient_handlers_def initializeClient_def authenticateIAP_def
      set_DefaultTransport_insecure_def
      authenticateOAuth2_def authenticateGoogleServiceAccount_def gsa_IsEnabled_def
      authenticateLdap_def ex_iap_basic_st_def ex_defs Let_def)


lemma ex_all_init:
  "initializeClient ex_env ex_all_st =
     (Return (Some \<lparr>Jar = True, Transport = None\<rparr>, None),
      (emit (GetIapToken (IapConfig [(''iapclientid'', ''id'')])) ex_all_st)
        \<lparr>Context := Some (WithAccessToken ''iap-token'')\<rparr>)"
  by (simp add: initializeClient_def authenticateIAP_def set_DefaultTransport_insecure_def
      ex_all_st_def ex_defs Let_def)

lemma ex_all_run:
  "fst (NewGateClient_handlers ex_env ex_all_st) = Return None"
  by (simp add: NewGateClient_handlers_def ex_all_init)
     (simp add: authenticateOAuth2_def authenticateOAuth2_cache_def oauth2_Config_of_def
      writeYAMLConfig_def writeYAML_def os_Stat_def ioutil_WriteFile_def login_cases
      authenticateGoogleServiceAccount_def gsa_IsEnabled_def
      authenticateGoogleServiceAccount_fetch_def authenticateGoogleServiceAccount_token_def
      authenticateLdap_def Ldap_IsValid_def http_NewRequest_def Header_Set_def
      set_OAuth2_CachedToken_def set_gsa_CachedToken_def upd_auth_def emit_def
      GateEndpoint_def ex_oauth2_def ex_all_st_def ex_defs Let_def)

lemma ex_all_on:
  "\<not> x509_on ex_all_st" "iap_on ex_all_st" "oauth2_on ex_all_st" "gsa_on ex_all_st"
  "ldap_on ex_all_st" "\<not> gsa_cached_valid ex_env ex_all_st" "trace ex_all_st = []"
  by (simp_all add: x509_on_def iap_on_def oauth2_on_def gsa_on_def ldap_on_def
      gsa_cached_valid_def cached_valid_def gsa_IsEnabled_def
      ex_all_st_def ex_st_def ex_auth_def)

lemma ex_iap_basic_on:
  "\<not> x509_on ex_iap_basic_st" "iap_on ex_iap_basic_st" "\<not> oauth2_on ex_iap_basic_st"
  "\<not> gsa_on ex_iap_basic_st" "\<not> ldap_on ex_iap_basic_st" "trace ex_iap_basic_st = []"
  "first_group_context ex_env ex_iap_basic_st = Some (WithAccessToken ''iap-token'')"
  by (simp_all add: x509_on_def iap_on_def oauth2_on_def gsa_on_def ldap_on_def
      gsa_IsEnabled_def first_group_context_def
      ex_iap_basic_st_def ex_st_def ex_auth_def ex_env_def)


section \<open>Failures of the session login\<close>

lemma cache_http_Do:
  "authenticateOAuth2_cache (env\<lparr>http_Do := d\<rparr>) t m = authenticateOAuth2_cache env t m"
  by (simp add: authenticateOAuth2_cache_def writeYAMLConfig_http_Do login_http_Do Let_def
      split: prod.splits outcome.splits)

lemma generateCodeVerifier_http_Do:
  "generateCodeVerifier (env\<lparr>http_Do := d\<rparr>) m = generateCodeVerifier env m"
  by (simp add: generateCodeVerifier_def rand_Read_def Let_def split: sum.splits)

lemma prompt_http_Do: "prompt (env\<lparr>http_Do := d\<rparr>) msg m = prompt env msg m"
  by (simp add: prompt_eq)

lemma oauth2_http_Do:
  "authenticateOAuth2 (env\<lparr>http_Do := d\<rparr>) m = authenticateOAuth2 env m"
  by (simp add: authenticateOAuth2_def cache_http_Do generateCodeVerifier_http_Do prompt_http_Do
      Let_def split: option.splits sum.splits prod.splits)

text \<open>
  C9: \<open>login\<close> returns an error exactly when the request cannot be constructed; the
  answer of the HTTP request (response or transport error) changes neither what \<open>login\<close>
  does nor what its callers do: the Google service account handler, which checks the
  result of \<open>login\<close>, and the OAuth2 handler, which drops it.
\<close>

theorem login_hides_network_failure:
  "(fst (login env tok m) = Return (Some e) \<longleftrightarrow>
      url_Parse_error env (GateEndpoint m @ ''/login'') = Some e) \<and>
   login (env\<lparr>http_Do := d\<rparr>) tok m = login env tok m \<and>
   authenticateGoogleServiceAccount (env\<lparr>http_Do := d\<rparr>) m =
     authenticateGoogleServiceAccount env m \<and>
   authenticateOAuth2 (env\<lparr>http_Do := d\<rparr>) m = authenticateOAuth2 env m"
proof (intro conjI)
  show "fst (login env tok m) = Return (Some e) \<longleftrightarrow>
      url_Parse_error env (GateEndpoint m @ ''/login'') = Some e"
    by (simp add: login_cases split: option.splits)
  show "login (env\<lparr>http_Do := d\<rparr>) tok m = login env tok m"
    by (rule login_http_Do)
  show "authenticateGoogleServiceAccount (env\<lparr>http_Do := d\<rparr>) m =
     authenticateGoogleServiceAccount env m"
    by (rule gsa_http_Do)
  show "authenticateOAuth2 (env\<lparr>http_Do := d\<rparr>) m = authenticateOAuth2 env m"
    by (rule oauth2_http_Do)
qed

lemma ex_endpoint: "GateEndpoint (ex_st a) = ''https://gate''"
  by (simp add: GateEndpoint_def ex_st_def)

theorem login_hides_network_failure_witness:
  "fst (login (ex_env\<lparr>http_Do := (\<lambda>c r. Inl (Error ''connection refused''))\<rparr>) ''tok'' (ex_st None))
     = Return None"
  using login_hides_network_failure
    [of ex_env "''tok''" "ex_st None" "Error ''x''" "\<lambda>c r. Inl (Error ''connection refused'')"]
  by (simp add: login_cases ex_endpoint) (simp add: ex_env_def ex_st_def)

end
